theory Spec2Isabelle
  imports Complex_Main
begin

section \<open>JavaScript numbers\<close>

text \<open>
  The dashboard code computes on JavaScript numbers. A number is modelled as one of the
  three IEEE special values or as a finite value, which is an exact rational. The
  operations \<open>js_add\<close>, \<open>js_mul\<close> and \<open>js_div\<close> give the exact result of an operation
  on finite values, and the value the runtime gives where an operand is special or a
  divisor is zero; the operations \<open>f64_add\<close>, \<open>f64_mul\<close> and \<open>f64_div\<close> further below
  round that result to binary64, as the runtime does. The savings goals and the
  sentiment of the daily insight, where a rounded quotient is compared with a
  threshold, are computed with the rounded operations. The sign of zero is not
  modelled: \<open>Fin 0\<close> is \<open>+0\<close>.
\<close>

datatype jsnum = Fin rat | PosInf | NegInf | NaN

fun js_add :: "jsnum \<Rightarrow> jsnum \<Rightarrow> jsnum" where
  "js_add (Fin a) (Fin b) = Fin (a + b)"
| "js_add (Fin a) PosInf = PosInf"
| "js_add (Fin a) NegInf = NegInf"
| "js_add PosInf (Fin b) = PosInf"
| "js_add PosInf PosInf = PosInf"
| "js_add NegInf (Fin b) = NegInf"
| "js_add NegInf NegInf = NegInf"
| "js_add PosInf NegInf = NaN"
| "js_add NegInf PosInf = NaN"
| "js_add NaN y = NaN"
| "js_add x NaN = NaN"

fun js_neg :: "jsnum \<Rightarrow> jsnum" where
  "js_neg (Fin a) = Fin (- a)"
| "js_neg PosInf = NegInf"
| "js_neg NegInf = PosInf"
| "js_neg NaN = NaN"

definition js_sub :: "jsnum \<Rightarrow> jsnum \<Rightarrow> jsnum" where
  "js_sub x y = js_add x (js_neg y)"

text \<open>The sign of a number that is not NaN: \<open>True\<close> for negative.\<close>

fun js_negative :: "jsnum \<Rightarrow> bool" where
  "js_negative (Fin a) = (a < 0)"
| "js_negative NegInf = True"
| "js_negative PosInf = False"
| "js_negative NaN = False"

definition signed_inf :: "bool \<Rightarrow> jsnum" where
  "signed_inf neg = (if neg then NegInf else PosInf)"

fun js_mul :: "jsnum \<Rightarrow> jsnum \<Rightarrow> jsnum" where
  "js_mul (Fin a) (Fin b) = Fin (a * b)"
| "js_mul NaN y = NaN"
| "js_mul x NaN = NaN"
| "js_mul (Fin a) y = (if a = 0 then NaN else signed_inf ((a < 0) \<noteq> js_negative y))"
| "js_mul x (Fin b) = (if b = 0 then NaN else signed_inf (js_negative x \<noteq> (b < 0)))"
| "js_mul x y = signed_inf (js_negative x \<noteq> js_negative y)"

fun js_div :: "jsnum \<Rightarrow> jsnum \<Rightarrow> jsnum" where
  "js_div (Fin a) (Fin b) =
     (if b = 0 then (if a = 0 then NaN else signed_inf (a < 0)) else Fin (a / b))"
| "js_div NaN y = NaN"
| "js_div x NaN = NaN"
| "js_div (Fin a) y = Fin 0"
| "js_div x (Fin b) = signed_inf (js_negative x \<noteq> (b < 0))"
| "js_div x y = NaN"

text \<open>Comparisons: every comparison with NaN is false.\<close>

fun js_lt :: "jsnum \<Rightarrow> jsnum \<Rightarrow> bool" where
  "js_lt (Fin a) (Fin b) = (a < b)"
| "js_lt NaN y = False"
| "js_lt x NaN = False"
| "js_lt NegInf NegInf = False"
| "js_lt NegInf y = True"
| "js_lt x PosInf = (x \<noteq> PosInf)"
| "js_lt x y = False"

definition js_eq :: "jsnum \<Rightarrow> jsnum \<Rightarrow> bool" where
  "js_eq x y = (x \<noteq> NaN \<and> x = y)"

definition js_gt :: "jsnum \<Rightarrow> jsnum \<Rightarrow> bool" where
  "js_gt x y = js_lt y x"

definition js_le :: "jsnum \<Rightarrow> jsnum \<Rightarrow> bool" where
  "js_le x y = (js_lt x y \<or> js_eq x y)"

definition js_ge :: "jsnum \<Rightarrow> jsnum \<Rightarrow> bool" where
  "js_ge x y = js_le y x"

text \<open>\<open>Math.min\<close> of two numbers: NaN if either is.\<close>

definition js_min :: "jsnum \<Rightarrow> jsnum \<Rightarrow> jsnum" where
  "js_min x y = (if x = NaN \<or> y = NaN then NaN else if js_lt y x then y else x)"


text \<open>The values \<open>!x\<close> holds for.\<close>

definition js_falsy :: "jsnum \<Rightarrow> bool" where
  "js_falsy x = (x = Fin 0 \<or> x = NaN)"

text \<open>\<open>Math.ceil\<close>.\<close>

fun js_ceil :: "jsnum \<Rightarrow> jsnum" where
  "js_ceil (Fin q) = Fin (of_int \<lceil>q\<rceil>)"
| "js_ceil x = x"

subsection \<open>Rounding to binary64\<close>

text \<open>
  The finite doubles are the numbers \<open>m * 2 ^ k\<close> with \<open>\<bar>m\<bar> < 2 ^ 53\<close> and
  \<open>- 1074 \<le> k \<le> 971\<close>. \<open>f64 x\<close> is the double nearest to the rational \<open>x\<close>, the one
  with the even \<open>m\<close> of two that are equally near, and an infinity where the nearest
  number of that form with unbounded \<open>k\<close> has reached \<open>2 ^ 1024\<close>: the value of a
  numeric literal, of \<open>parseFloat\<close> on a decimal numeral, and of an arithmetic operation
  whose exact result is \<open>x\<close>.
\<close>

definition pow2 :: "int \<Rightarrow> rat" where
  "pow2 k = (if 0 \<le> k then 2 ^ nat k else 1 / 2 ^ nat (- k))"

text \<open>The number of binary digits of a positive integer.\<close>

function bit_length :: "int \<Rightarrow> nat" where
  "bit_length n = (if n \<le> 0 then 0 else Suc (bit_length (n div 2)))"
  by auto

termination
  by (relation "measure nat") auto

declare bit_length.simps [simp del]

text \<open>
  The binary exponent of a positive rational \<open>a\<close>: the \<open>e\<close> with
  \<open>2 ^ e \<le> a < 2 ^ (e + 1)\<close>.
\<close>

definition ilog2 :: "rat \<Rightarrow> int" where
  "ilog2 a =
     (if 1 \<le> a then int (bit_length \<lfloor>a\<rfloor>) - 1
      else - int (bit_length (\<lceil>1 / a\<rceil> - 1)))"

definition round_half_even :: "rat \<Rightarrow> int" where
  "round_half_even s =
     (let f = \<lfloor>s\<rfloor>; d = s - of_int f
      in if d < 1 / 2 then f
         else if 1 / 2 < d then f + 1
         else if even f then f else f + 1)"

definition f64 :: "rat \<Rightarrow> jsnum" where
  "f64 x =
     (if x = 0 then Fin 0
      else
        let a = \<bar>x\<bar>;
            k = max (ilog2 a - 52) (- 1074);
            r = of_int (round_half_even (a / pow2 k)) * pow2 k
        in if pow2 1024 \<le> r then signed_inf (x < 0)
           else Fin (if x < 0 then - r else r))"

definition round_double :: "jsnum \<Rightarrow> jsnum" where
  "round_double x = (case x of Fin q \<Rightarrow> f64 q | _ \<Rightarrow> x)"

text \<open>The operators \<open>+\<close>, \<open>*\<close> and \<open>/\<close> of the runtime on two doubles.\<close>

definition f64_add :: "jsnum \<Rightarrow> jsnum \<Rightarrow> jsnum" where
  "f64_add x y = round_double (js_add x y)"

definition f64_mul :: "jsnum \<Rightarrow> jsnum \<Rightarrow> jsnum" where
  "f64_mul x y = round_double (js_mul x y)"

definition f64_div :: "jsnum \<Rightarrow> jsnum \<Rightarrow> jsnum" where
  "f64_div x y = round_double (js_div x y)"

section \<open>Budgets (BudgetTracker)\<close>

record BudgetModel =
  category_name :: string
  monthly_limit :: jsnum
  current_spent :: jsnum
  alert_threshold :: jsnum

text \<open>
  The expression \<open>(budget.current_spent / budget.monthly_limit) * 100\<close>, computed in
  \<open>getBudgetStatus\<close> and again where each budget card is rendered.
\<close>

definition budgetPercentage :: "BudgetModel \<Rightarrow> jsnum" where
  "budgetPercentage budget =
     js_mul (js_div (current_spent budget) (monthly_limit budget)) (Fin 100)"

definition getBudgetStatus :: "BudgetModel \<Rightarrow> string" where
  "getBudgetStatus budget =
     (let percentage = budgetPercentage budget in
      if js_ge percentage (alert_threshold budget) then ''warning''
      else if js_ge percentage (Fin 100) then ''exceeded''
      else ''ok'')"

section \<open>Period-over-period change (SpendingAnalytics)\<close>


section \<open>Printing numbers\<close>

definition digit_char :: "nat \<Rightarrow> char" where
  "digit_char d = ''0123456789'' ! (d mod 10)"

fun show_nat :: "nat \<Rightarrow> string" where
  "show_nat n =
     (if n < 10 then [digit_char n] else show_nat (n div 10) @ [digit_char (n mod 10)])"

declare show_nat.simps [simp del]

text \<open>
  \<open>x.toFixed(2)\<close>: the sign, then the integer \<open>n\<close> nearest to \<open>|x| * 100\<close> (the larger
  one of two that are equally near) printed with a point before its last two digits.
  Numbers of magnitude \<open>10^21\<close> and more, which the runtime prints in exponent
  notation, are outside the model.
\<close>

definition toFixed2 :: "jsnum \<Rightarrow> string" where
  "toFixed2 x =
     (case x of
        NaN \<Rightarrow> ''NaN''
      | PosInf \<Rightarrow> ''Infinity''
      | NegInf \<Rightarrow> ''-Infinity''
      | Fin q \<Rightarrow>
          (let n = nat \<lfloor>\<bar>q\<bar> * 100 + 1 / 2\<rfloor> in
           (if q < 0 then ''-'' else []) @ show_nat (n div 100) @ ''.''
             @ [digit_char (n mod 100 div 10), digit_char (n mod 10)]))"

text \<open>
  The text of a number where a template string interpolates it. The model prints the
  integer part; it is applied to the results of \<open>Math.ceil\<close> and to differences of them
  only, which have no fraction.
\<close>

definition number_toString :: "jsnum \<Rightarrow> string" where
  "number_toString x =
     (case x of
        NaN \<Rightarrow> ''NaN''
      | PosInf \<Rightarrow> ''Infinity''
      | NegInf \<Rightarrow> ''-Infinity''
      | Fin q \<Rightarrow> (if q < 0 then ''-'' else []) @ show_nat (nat \<lfloor>\<bar>q\<bar>\<rfloor>))"

section \<open>Savings goals (SavingsGoals)\<close>

record SavingsGoalModel =
  goal_name :: string
  target_amount :: jsnum
  current_amount :: jsnum
  is_completed :: bool

record Milestone =
  percentage :: jsnum
  label :: string
  message :: string

definition MILESTONES :: "Milestone list" where
  "MILESTONES =
     [\<lparr>percentage = Fin 25, label = ''25% Complete'',
        message = ''Great start! You're building momentum!''\<rparr>,
      \<lparr>percentage = Fin 50, label = ''Halfway There!'',
        message = ''Amazing progress! Keep it going!''\<rparr>,
      \<lparr>percentage = Fin 75, label = ''75% Complete'',
        message = ''You're so close! Don't give up now!''\<rparr>,
      \<lparr>percentage = Fin 100, label = ''Goal Achieved!'',
        message = ''Congratulations! You did it!''\<rparr>]"

text \<open>
  What \<open>handleAddContribution\<close> leaves behind: the goal it wrote through the ORM, if
  it wrote one, and the toasts it showed, in order.
\<close>

datatype toast = ToastSuccess string string | ToastError string

record contribution_result =
  saved :: "SavingsGoalModel option"
  toasts :: "toast list"

text \<open>
  \<open>handleAddContribution\<close> reads the text of the amount field. \<open>parseFloat\<close> is the
  runtime's, taken as a parameter; the sum and the two percentages are computed on
  doubles, with the rounded operations; \<open>orm_ok\<close> says whether the ORM's
  \<open>setSavingsGoalById\<close> returned (an exception there is caught and reported by an
  error toast, after which nothing else happens).
\<close>

definition handleAddContribution ::
  "(string \<Rightarrow> jsnum) \<Rightarrow> bool \<Rightarrow> SavingsGoalModel \<Rightarrow> string \<Rightarrow> contribution_result" where
  "handleAddContribution parseFloat orm_ok goal contributionAmount =
     (if contributionAmount = [] \<or> js_le (parseFloat contributionAmount) (Fin 0)
      then \<lparr>saved = None, toasts = [ToastError ''Please enter a valid amount'']\<rparr>
      else
        let newAmount = f64_add (current_amount goal) (parseFloat contributionAmount);
            isCompleted = js_ge newAmount (target_amount goal);
            oldPercentage =
              f64_mul (f64_div (current_amount goal) (target_amount goal)) (Fin 100);
            newPercentage = f64_mul (f64_div newAmount (target_amount goal)) (Fin 100);
            achievedMilestone =
              find (\<lambda>m. js_lt oldPercentage (percentage m)
                         \<and> js_ge newPercentage (percentage m))
                MILESTONES
        in if orm_ok
           then \<lparr>saved = Some (goal\<lparr>current_amount := newAmount,
                                    is_completed := isCompleted\<rparr>),
                 toasts =
                   [case achievedMilestone of
                      Some m \<Rightarrow> ToastSuccess (label m) (message m)
                    | None \<Rightarrow>
                        ToastSuccess (''Added $'' @ toFixed2 (parseFloat contributionAmount))
                          (''New balance: $'' @ toFixed2 newAmount)]\<rparr>
           else \<lparr>saved = None, toasts = [ToastError ''Failed to add contribution'']\<rparr>)"

text \<open>The width of the progress bar of a goal, in percent.\<close>

definition getProgress :: "SavingsGoalModel \<Rightarrow> jsnum" where
  "getProgress goal =
     js_min (f64_mul (f64_div (current_amount goal) (target_amount goal)) (Fin 100)) (Fin 100)"

section \<open>Subscriptions (SubscriptionTracker)\<close>








section \<open>Strings\<close>

text \<open>
  A string is the list of the bytes of its UTF-8 text. The white space that \<open>trim\<close> and
  the pattern \<open>\s\<close> recognise is modelled by its six ASCII characters, and the line
  terminators that the pattern \<open>.\<close> refuses by line feed and carriage return; the
  white space and line separators beyond ASCII are ordinary characters of the model.
\<close>

definition js_space :: "char \<Rightarrow> bool" where
  "js_space c = (c \<in> set [CHR 0x09, CHR 0x0A, CHR 0x0B, CHR 0x0C, CHR 0x0D, CHR '' ''])"

definition line_terminator :: "char \<Rightarrow> bool" where
  "line_terminator c = (c = CHR 0x0A \<or> c = CHR 0x0D)"

definition trim :: "string \<Rightarrow> string" where
  "trim s = rev (dropWhile js_space (rev (dropWhile js_space s)))"

text \<open>\<open>s.split(sep)\<close> for a separator of one character, and \<open>xs.join(sep)\<close>.\<close>

fun split_str :: "char \<Rightarrow> string \<Rightarrow> string list" where
  "split_str sep [] = [[]]"
| "split_str sep (c # cs) =
     (if c = sep then [] # split_str sep cs
      else (case split_str sep cs of [] \<Rightarrow> [[c]] | l # ls \<Rightarrow> (c # l) # ls))"

fun join :: "string \<Rightarrow> string list \<Rightarrow> string" where
  "join sep [] = []"
| "join sep [x] = x"
| "join sep (x # y # ys) = x @ sep @ join sep (y # ys)"

text \<open>\<open>s.includes(p)\<close>, from the test that \<open>p\<close> stands at the start of \<open>s\<close>.\<close>

fun starts_with :: "string \<Rightarrow> string \<Rightarrow> bool" where
  "starts_with s [] = True"
| "starts_with [] (p # ps) = False"
| "starts_with (c # cs) (p # ps) = (c = p \<and> starts_with cs ps)"

fun includes_str :: "string \<Rightarrow> string \<Rightarrow> bool" where
  "includes_str [] p = starts_with [] p"
| "includes_str (c # cs) p = (starts_with (c # cs) p \<or> includes_str cs p)"

text \<open>
  Lower case of the ASCII letters, for \<open>toLowerCase\<close> and for the patterns with the
  flag \<open>i\<close>, all of which are made of ASCII letters and punctuation.
\<close>

definition lower :: "char \<Rightarrow> char" where
  "lower c =
     (case map_of (zip ''ABCDEFGHIJKLMNOPQRSTUVWXYZ'' ''abcdefghijklmnopqrstuvwxyz'') c of
        Some l \<Rightarrow> l
      | None \<Rightarrow> c)"

definition toLowerCase :: "string \<Rightarrow> string" where
  "toLowerCase s = map lower s"

definition starts_with_ci :: "string \<Rightarrow> string \<Rightarrow> bool" where
  "starts_with_ci s p = starts_with (toLowerCase s) (toLowerCase p)"

text \<open>
  Decimal digits, and \<open>parseFloat\<close> on the only texts the hook passes to it: the group
  \<open>\d+(?:\.\d{2})?\<close> of the SAVINGS pattern.
\<close>

definition is_digit :: "char \<Rightarrow> bool" where
  "is_digit c = (c \<in> set ''0123456789'')"

definition digit_val :: "char \<Rightarrow> nat" where
  "digit_val c = (case map_of (zip ''0123456789'' [0, 1, 2, 3, 4, 5, 6, 7, 8, 9]) c of
                    Some d \<Rightarrow> d | None \<Rightarrow> 0)"

definition nat_of_digits :: "string \<Rightarrow> nat" where
  "nat_of_digits ds = foldl (\<lambda>n c. 10 * n + digit_val c) 0 ds"

definition parseFloat_decimal :: "string \<Rightarrow> jsnum" where
  "parseFloat_decimal s =
     (let ip = takeWhile is_digit s; fp = takeWhile is_digit (drop 1 (dropWhile is_digit s))
      in Fin (of_nat (nat_of_digits ip) + of_nat (nat_of_digits fp) / 10 ^ length fp))"

text \<open>
  A pattern that is not anchored matches at the leftmost position where it can: \<open>f\<close>
  matches at the start of a text, and \<open>first_match f\<close> tries the suffixes in order.
\<close>

fun first_match :: "(string \<Rightarrow> 'a option) \<Rightarrow> string \<Rightarrow> 'a option" where
  "first_match f [] = f []"
| "first_match f (c # cs) = (case f (c # cs) of Some r \<Rightarrow> Some r | None \<Rightarrow> first_match f cs)"

text \<open>The bullet character U+2022.\<close>

definition bullet :: string where
  "bullet = [CHR 0xE2, CHR 0x80, CHR 0xA2]"

text \<open>
  \<open>line.match(/RECOMMENDATION:\s*(.+)/i)\<close>, giving the group. After the marker \<open>\s*\<close>
  takes all the white space; \<open>.+\<close> then takes the rest up to a line terminator.
  When nothing is left after the white space, \<open>\s*\<close> gives back characters until one
  that \<open>.\<close> accepts is the last: the group is that one white-space character.
\<close>

definition recommendation_at :: "string \<Rightarrow> string option" where
  "recommendation_at s =
     (if starts_with_ci s ''RECOMMENDATION:''
      then (let r = drop (length ''RECOMMENDATION:'') s;
                ws = takeWhile js_space r; rest = dropWhile js_space r
            in if rest \<noteq> [] then Some (takeWhile (\<lambda>c. \<not> line_terminator c) rest)
               else (case filter (\<lambda>c. \<not> line_terminator c) ws of
                       [] \<Rightarrow> None
                     | w # wsa \<Rightarrow> Some [last (w # wsa)]))
      else None)"

definition recommendationMatch :: "string \<Rightarrow> string option" where
  "recommendationMatch line = first_match recommendation_at line"

text \<open>\<open>line.match(/SAVINGS:\s*\$?(\d+(?:\.\d{2})?)/i)\<close>, giving the group.\<close>

definition savings_at :: "string \<Rightarrow> string option" where
  "savings_at s =
     (if starts_with_ci s ''SAVINGS:''
      then (let r = dropWhile js_space (drop (length ''SAVINGS:'') s);
                r' = (if starts_with r ''$'' then drop 1 r else r);
                ds = takeWhile is_digit r';
                after = dropWhile is_digit r'
            in if ds = [] then None
               else if starts_with after ''.'' \<and> 3 \<le> length after
                       \<and> is_digit (after ! 1) \<and> is_digit (after ! 2)
                    then Some (ds @ take 3 after)
                    else Some ds)
      else None)"

definition savingsMatch :: "string \<Rightarrow> string option" where
  "savingsMatch line = first_match savings_at line"

text \<open>\<open>line.match(/DIFFICULTY:\s*(easy|medium|hard)/i)\<close>, giving the group.\<close>

definition difficulty_at :: "string \<Rightarrow> string option" where
  "difficulty_at s =
     (if starts_with_ci s ''DIFFICULTY:''
      then (let r = dropWhile js_space (drop (length ''DIFFICULTY:'') s)
            in if starts_with_ci r ''easy'' then Some (take 4 r)
               else if starts_with_ci r ''medium'' then Some (take 6 r)
               else if starts_with_ci r ''hard'' then Some (take 4 r)
               else None)
      else None)"

definition difficultyMatch :: "string \<Rightarrow> string option" where
  "difficultyMatch line = first_match difficulty_at line"

text \<open>
  \<open>numbered\<close> is \<open>line.match(/^\d+\./)\<close>, \<open>marker_line\<close> is
  \<open>l.match(/RECOMMENDATION:|SAVINGS:|DIFFICULTY:/i)\<close>, and \<open>strip_bullet\<close> is
  \<open>s.replace(/^[-\<bullet>]\s*|\d+\.\s*/, '')\<close>, which removes the first match only: a
  hyphen or bullet at the very start with the white space after it, or else the
  leftmost number followed by a dot, wherever it stands, with the white space after it.
\<close>

definition numbered :: "string \<Rightarrow> bool" where
  "numbered s = (takeWhile is_digit s \<noteq> [] \<and> starts_with (dropWhile is_digit s) ''.'')"

definition marker_line :: "string \<Rightarrow> bool" where
  "marker_line l =
     (includes_str (toLowerCase l) (toLowerCase ''RECOMMENDATION:'')
      \<or> includes_str (toLowerCase l) (toLowerCase ''SAVINGS:'')
      \<or> includes_str (toLowerCase l) (toLowerCase ''DIFFICULTY:''))"

fun strip_number :: "string \<Rightarrow> string" where
  "strip_number [] = []"
| "strip_number (c # cs) =
     (if numbered (c # cs) then dropWhile js_space (drop 1 (dropWhile is_digit (c # cs)))
      else c # strip_number cs)"

definition strip_bullet :: "string \<Rightarrow> string" where
  "strip_bullet s =
     (if starts_with s ''-'' then dropWhile js_space (drop 1 s)
      else if starts_with s bullet then dropWhile js_space (drop 3 s)
      else strip_number s)"

text \<open>
  The test both hooks apply to a line before they take it for a suggestion, and the
  lines of a reply that are not blank.
\<close>

definition bulleted :: "string \<Rightarrow> bool" where
  "bulleted line = (includes_str line ''-'' \<or> includes_str line bullet \<or> numbered line)"

definition content_lines :: "string \<Rightarrow> string list" where
  "content_lines content = filter (\<lambda>line. trim line \<noteq> []) (split_str (CHR 0x0A) content)"

section \<open>The chat-completion hooks (use-openai-gpt-chat)\<close>

text \<open>
  The inputs of the two mutation functions. Of a transaction, a budget status and the
  spending patterns the model keeps the fields the functions compute with; the other
  fields only enter the text of the prompt. An object that the functions test for
  presence is an option. Where two records of the sources have a field of the same
  name, the field carries a prefix here (\<open>txn_\<close>, \<open>sr_\<close>).
\<close>

record Transaction =
  txn_amount :: jsnum
  txn_category :: string
  txn_description :: string

record BudgetStatus =
  totalBudget :: jsnum
  spent :: jsnum
  remaining :: jsnum

record SpendingPattern =
  averageDaily :: jsnum

record GenerateDailyInsightInput =
  transactions :: "Transaction list option"
  budgetStatus :: "BudgetStatus option"
  spendingPatterns :: "SpendingPattern option"

record Metadata =
  tokensUsed :: nat
  modelUsed :: string

record GenerateDailyInsightResponse =
  insight :: string
  suggestions :: "string list"
  sentiment :: string
  metadata :: Metadata

text \<open>
  What \<open>createChatCompletion\<close> resolved to. The endpoint is outside the program: its
  reply is an argument of the model, and the text of the prompt, which only the
  endpoint reads, is not modelled. An error that is an object carries its JSON text;
  each choice is the content of its message, if it has one.
\<close>

datatype api_error = ErrorObject string | ErrorOther

record ChatCompletion =
  choices :: "string option list option"
  total_tokens :: "nat option"
  model :: string

record ApiResponse =
  error :: "api_error option"
  data :: "ChatCompletion option"

text \<open>
  A run of a mutation function: how many requests it issued, and the response it
  returned or the message of the \<open>Error\<close> it threw.
\<close>

record 'a mutation_result =
  api_calls :: nat
  outcome :: "string + 'a"

definition throw_before_call :: "string \<Rightarrow> 'a mutation_result" where
  "throw_before_call msg = \<lparr>api_calls = 0, outcome = Inl msg\<rparr>"

definition throw_after_call :: "string \<Rightarrow> 'a mutation_result" where
  "throw_after_call msg = \<lparr>api_calls = 1, outcome = Inl msg\<rparr>"

text \<open>
  The checks on the reply that both functions make, with the message each uses for an
  error that is not an object.
\<close>

definition response_content :: "string \<Rightarrow> ApiResponse \<Rightarrow> string + (ChatCompletion \<times> string)" where
  "response_content failed response =
     (case error response of
        Some (ErrorObject json) \<Rightarrow> Inl json
      | Some ErrorOther \<Rightarrow> Inl failed
      | None \<Rightarrow>
     (case data response of
        None \<Rightarrow> Inl ''No response data received from AI service''
      | Some aiResponse \<Rightarrow>
     (case choices aiResponse of
        None \<Rightarrow> Inl ''No completion choices returned from AI service''
      | Some [] \<Rightarrow> Inl ''No completion choices returned from AI service''
      | Some (None # cs) \<Rightarrow> Inl ''Empty content returned from AI service''
      | Some (Some content # cs) \<Rightarrow>
          if content = [] then Inl ''Empty content returned from AI service''
          else Inr (aiResponse, content))))"

definition response_metadata :: "ChatCompletion \<Rightarrow> Metadata" where
  "response_metadata aiResponse =
     \<lparr>tokensUsed = (case total_tokens aiResponse of None \<Rightarrow> 0 | Some n \<Rightarrow> n),
      modelUsed = model aiResponse\<rparr>"

text \<open>
  \<open>useGenerateDailyInsight\<close>. The budget utilization is the double that the division
  yields; it is compared with the doubles of the literals \<open>0.7\<close> and \<open>0.9\<close>.
\<close>

definition useGenerateDailyInsight ::
  "GenerateDailyInsightInput \<Rightarrow> ApiResponse \<Rightarrow> GenerateDailyInsightResponse mutation_result" where
  "useGenerateDailyInsight input response =
     (if transactions input = None \<or> transactions input = Some []
      then throw_before_call ''At least one transaction is required to generate insights''
      else case budgetStatus input of
        None \<Rightarrow> throw_before_call ''Budget status is required to generate insights''
      | Some budget \<Rightarrow>
     (case spendingPatterns input of
        None \<Rightarrow> throw_before_call ''Spending patterns are required to generate insights''
      | Some patterns \<Rightarrow>
     (case response_content ''Failed to generate daily insight'' response of
        Inl msg \<Rightarrow> throw_after_call msg
      | Inr (aiResponse, content) \<Rightarrow>
          let lines = content_lines content;
              insight = join '' '' (take 2 lines);
              suggestions = map (\<lambda>s. trim (strip_bullet s)) (filter bulleted (drop 2 lines));
              budgetUtilization = f64_div (spent budget) (totalBudget budget);
              sentiment =
                (if js_lt budgetUtilization (f64 (7 / 10)) then ''positive''
                 else if js_gt budgetUtilization (f64 (9 / 10)) then ''warning''
                 else ''neutral'')
          in \<lparr>api_calls = 1,
              outcome = Inr
                \<lparr>insight = (if insight \<noteq> [] then insight else content),
                 suggestions = (if suggestions \<noteq> [] then suggestions else [content]),
                 sentiment = sentiment,
                 metadata = response_metadata aiResponse\<rparr>\<rparr>)))"

record SavingsGoal =
  goalName :: string
  targetAmount :: jsnum
  currentAmount :: jsnum

record GenerateSavingsRecommendationInput =
  savingsGoal :: "SavingsGoal option"
  sr_transactions :: "Transaction list option"
  monthlyIncome :: jsnum
  sr_spendingPatterns :: "SpendingPattern option"

record SpecificAction =
  action :: string
  potentialSavings :: jsnum
  difficulty :: string

record EstimatedTimeToGoal =
  months :: jsnum
  description :: string

record GenerateSavingsRecommendationResponse =
  recommendations :: "string list"
  projectedSavingsIncrease :: jsnum
  estimatedTimeToGoal :: EstimatedTimeToGoal
  specificActions :: "SpecificAction list"
  sr_metadata :: Metadata

text \<open>
  The record in progress of the scan, \<open>currentAction\<close>; \<open>completed_action\<close> is what
  the scan pushes for it: the record if all three fields are set, nothing otherwise.
\<close>

record CurrentAction =
  cur_action :: "string option"
  cur_savings :: "jsnum option"
  cur_difficulty :: "string option"

definition completed_action :: "CurrentAction \<Rightarrow> SpecificAction list" where
  "completed_action cur =
     (case (cur_action cur, cur_savings cur, cur_difficulty cur) of
        (Some a, Some s, Some d) \<Rightarrow>
          if a \<noteq> [] \<and> d \<noteq> []
          then [\<lparr>action = a, potentialSavings = s, difficulty = d\<rparr>] else []
      | _ \<Rightarrow> [])"

text \<open>
  One turn of \<open>lines.forEach\<close> on the pair of \<open>specificActions\<close> and
  \<open>currentAction\<close>, and the whole scan with the push after the loop.
\<close>

definition scan_line ::
  "SpecificAction list \<times> CurrentAction \<Rightarrow> string \<Rightarrow> SpecificAction list \<times> CurrentAction" where
  "scan_line st line =
     (case recommendationMatch line of
        Some g \<Rightarrow>
          (fst st @ completed_action (snd st),
           \<lparr>cur_action = Some (trim g), cur_savings = None, cur_difficulty = None\<rparr>)
      | None \<Rightarrow>
     (case savingsMatch line of
        Some g \<Rightarrow> (fst st, (snd st)\<lparr>cur_savings := Some (parseFloat_decimal g)\<rparr>)
      | None \<Rightarrow>
     (case difficultyMatch line of
        Some g \<Rightarrow> (fst st, (snd st)\<lparr>cur_difficulty := Some (toLowerCase g)\<rparr>)
      | None \<Rightarrow> st)))"

definition parse_actions :: "string list \<Rightarrow> SpecificAction list" where
  "parse_actions lines =
     (let st = foldl scan_line
                 ([], \<lparr>cur_action = None, cur_savings = None, cur_difficulty = None\<rparr>) lines
      in fst st @ completed_action (snd st))"

text \<open>
  \<open>savings > 0 ? Math.ceil(remainingToGoal / savings) : Infinity\<close>, used for the
  current and for the projected savings, and the plural ending of the description.
\<close>

definition months_to_goal :: "jsnum \<Rightarrow> jsnum \<Rightarrow> jsnum" where
  "months_to_goal remainingToGoal monthlySavings =
     (if js_gt monthlySavings (Fin 0) then js_ceil (js_div remainingToGoal monthlySavings)
      else PosInf)"

definition plural :: "jsnum \<Rightarrow> string" where
  "plural n = (if js_eq n (Fin 1) then [] else ''s'')"

definition useGenerateSavingsRecommendation ::
  "GenerateSavingsRecommendationInput \<Rightarrow> ApiResponse
     \<Rightarrow> GenerateSavingsRecommendationResponse mutation_result" where
  "useGenerateSavingsRecommendation input response =
     (case savingsGoal input of
        None \<Rightarrow> throw_before_call ''Savings goal is required''
      | Some goal \<Rightarrow>
     (if sr_transactions input = None \<or> sr_transactions input = Some []
      then throw_before_call ''Transaction history is required to generate recommendations''
      else if js_falsy (monthlyIncome input) \<or> js_le (monthlyIncome input) (Fin 0)
      then throw_before_call ''Valid monthly income is required''
      else case sr_spendingPatterns input of
        None \<Rightarrow> throw_before_call ''Spending patterns are required''
      | Some patterns \<Rightarrow>
          let remainingToGoal = js_sub (targetAmount goal) (currentAmount goal);
              averageMonthlySpending = js_mul (averageDaily patterns) (Fin 30);
              currentMonthlySavings = js_sub (monthlyIncome input) averageMonthlySpending;
              monthsToGoal = months_to_goal remainingToGoal currentMonthlySavings
          in
     (case response_content ''Failed to generate savings recommendations'' response of
        Inl msg \<Rightarrow> throw_after_call msg
      | Inr (aiResponse, content) \<Rightarrow>
          let lines = content_lines content;
              specificActions = parse_actions lines;
              totalPotentialSavings =
                foldl (\<lambda>sum a. js_add sum (potentialSavings a)) (Fin 0) specificActions;
              newMonthlySavings = js_add currentMonthlySavings totalPotentialSavings;
              newMonthsToGoal = months_to_goal remainingToGoal newMonthlySavings;
              recommendations =
                (if specificActions \<noteq> [] then map action specificActions
                 else map (\<lambda>s. trim (strip_bullet s))
                        (filter (\<lambda>l. bulleted l \<and> \<not> marker_line l) lines));
              monthsSaved = js_sub monthsToGoal newMonthsToGoal;
              timeDescription =
                (if newMonthsToGoal = PosInf then ''Additional income needed to reach goal''
                 else if js_gt monthsSaved (Fin 0)
                 then number_toString monthsSaved @ '' month'' @ plural monthsSaved
                        @ '' faster than current pace''
                 else number_toString newMonthsToGoal @ '' month'' @ plural newMonthsToGoal
                        @ '' to reach goal'')
          in \<lparr>api_calls = 1,
              outcome = Inr
                \<lparr>recommendations =
                   (if recommendations \<noteq> [] then recommendations else [content]),
                 projectedSavingsIncrease = totalPotentialSavings,
                 estimatedTimeToGoal =
                   \<lparr>months = (if newMonthsToGoal = PosInf then Fin (- 1) else newMonthsToGoal),
                    description = timeDescription\<rparr>,
                 specificActions =
                   (if specificActions \<noteq> [] then specificActions
                    else [\<lparr>action = ''Review and optimize spending across all categories'',
                           potentialSavings =
                             js_min (js_mul averageMonthlySpending (Fin (1 / 10))) (Fin 200),
                           difficulty = ''medium''\<rparr>]),
                 sr_metadata = response_metadata aiResponse\<rparr>\<rparr>)))"

text \<open>
  What one group of lines contributes, in the words of the specification: a group is a
  RECOMMENDATION line, whose captured text is \<open>g\<close>, and the lines \<open>seg\<close> after it up to
  the next RECOMMENDATION line. It is kept as a record only if all three fields were
  seen: the action is not empty, and \<open>seg\<close> has a SAVINGS line and a DIFFICULTY line (a
  line that has both markers counts as a SAVINGS line); the record takes the last of
  each.
\<close>

definition segment_savings :: "string list \<Rightarrow> jsnum list" where
  "segment_savings seg =
     List.map_filter (\<lambda>l. map_option parseFloat_decimal (savingsMatch l)) seg"

definition segment_difficulties :: "string list \<Rightarrow> string list" where
  "segment_difficulties seg =
     List.map_filter
       (\<lambda>l. if savingsMatch l = None then map_option toLowerCase (difficultyMatch l) else None)
       seg"

definition segment_record :: "string \<Rightarrow> string list \<Rightarrow> SpecificAction list" where
  "segment_record g seg =
     (if trim g \<noteq> [] \<and> segment_savings seg \<noteq> [] \<and> segment_difficulties seg \<noteq> []
      then [\<lparr>action = trim g, potentialSavings = last (segment_savings seg),
             difficulty = last (segment_difficulties seg)\<rparr>]
      else [])"

section \<open>Time windows (SpendingAnalytics)\<close>

text \<open>
  A \<open>Date\<close> is modelled by its fields in local time: the year, the month counted
  from 0 as \<open>getMonth\<close> does, the day of the month, and the milliseconds since
  midnight. Its time value, which the comparison operators and \<open>getDay\<close> read, is
  computed from the fields by the day-number arithmetic of the language standard, for
  a local time with one offset from UTC throughout; changes of the offset (daylight
  saving) are not modelled. The functions of date-fns follow their documentation, with
  the week starting on Sunday, the library's default, which the calls do not override.
\<close>

datatype TimeFilter = weekly | monthly | quarterly | yearly

record Date =
  year :: int
  month :: nat
  day :: nat
  ms :: nat

definition leap_year :: "int \<Rightarrow> bool" where
  "leap_year y =
     (if y mod 400 = 0 then True else if y mod 100 = 0 then False else y mod 4 = 0)"

definition daysInMonth :: "int \<Rightarrow> nat \<Rightarrow> nat" where
  "daysInMonth y m =
     (if m = 1 then (if leap_year y then 29 else 28)
      else if m = 3 \<or> m = 5 \<or> m = 8 \<or> m = 10 then 30
      else 31)"

text \<open>
  \<open>d.setDate(d.getDate() - 1)\<close> and \<open>d.setDate(d.getDate() + 1)\<close>: the same time of
  day on the neighbouring calendar day.
\<close>

definition prev_day :: "Date \<Rightarrow> Date" where
  "prev_day d =
     (if 1 < day d then d\<lparr>day := day d - 1\<rparr>
      else if 0 < month d
      then d\<lparr>month := month d - 1, day := daysInMonth (year d) (month d - 1)\<rparr>
      else d\<lparr>year := year d - 1, month := 11, day := 31\<rparr>)"

definition next_day :: "Date \<Rightarrow> Date" where
  "next_day d =
     (if day d < daysInMonth (year d) (month d) then d\<lparr>day := day d + 1\<rparr>
      else if month d < 11 then d\<lparr>month := month d + 1, day := 1\<rparr>
      else d\<lparr>year := year d + 1, month := 0, day := 1\<rparr>)"

fun sub_days :: "nat \<Rightarrow> Date \<Rightarrow> Date" where
  "sub_days 0 d = d"
| "sub_days (Suc n) d = sub_days n (prev_day d)"

fun add_days :: "nat \<Rightarrow> Date \<Rightarrow> Date" where
  "add_days 0 d = d"
| "add_days (Suc n) d = add_days n (next_day d)"

definition end_of_day :: nat where
  "end_of_day = 86399999"

text \<open>The dates of the calendar, among the values of the record.\<close>

definition valid_date :: "Date \<Rightarrow> bool" where
  "valid_date d =
     (month d < 12 \<and> 1 \<le> day d \<and> day d \<le> daysInMonth (year d) (month d)
      \<and> ms d \<le> end_of_day)"

text \<open>
  The number of the day on which a year starts, counted from 1 January 1970
  (\<open>DayFromYear\<close> of the standard), the number of days of a year before a month, the
  number of the day of a date, and the time value of a date in milliseconds.
\<close>

definition DayFromYear :: "int \<Rightarrow> int" where
  "DayFromYear y =
     365 * (y - 1970) + (y - 1969) div 4 - (y - 1901) div 100 + (y - 1601) div 400"

definition days_before_month :: "int \<Rightarrow> nat \<Rightarrow> int" where
  "days_before_month y m =
     [0, 31, 59, 90, 120, 151, 181, 212, 243, 273, 304, 334] ! m
       + (if 2 \<le> m \<and> leap_year y then 1 else 0)"

definition day_number :: "Date \<Rightarrow> int" where
  "day_number d =
     DayFromYear (year d) + days_before_month (year d) (month d) + int (day d) - 1"

definition time_value :: "Date \<Rightarrow> int" where
  "time_value d = day_number d * 86400000 + int (ms d)"

text \<open>
  \<open>a <= b\<close> on two dates compares their time values; \<open>a >= b\<close> is \<open>b <= a\<close>.
\<close>

definition date_le :: "Date \<Rightarrow> Date \<Rightarrow> bool" where
  "date_le a b = (time_value a \<le> time_value b)"

text \<open>
  The day of the week, 0 for Sunday: \<open>WeekDay\<close> of the standard. Day 0 was a
  Thursday.
\<close>

definition getDay :: "Date \<Rightarrow> nat" where
  "getDay d = nat ((day_number d + 4) mod 7)"

definition startOfWeek :: "Date \<Rightarrow> Date" where
  "startOfWeek d = (sub_days (getDay d) d)\<lparr>ms := 0\<rparr>"

definition endOfWeek :: "Date \<Rightarrow> Date" where
  "endOfWeek d = (add_days (6 - getDay d) d)\<lparr>ms := end_of_day\<rparr>"

definition startOfMonth :: "Date \<Rightarrow> Date" where
  "startOfMonth d = d\<lparr>day := 1, ms := 0\<rparr>"

definition endOfMonth :: "Date \<Rightarrow> Date" where
  "endOfMonth d = d\<lparr>day := daysInMonth (year d) (month d), ms := end_of_day\<rparr>"

definition startOfQuarter :: "Date \<Rightarrow> Date" where
  "startOfQuarter d = d\<lparr>month := month d - month d mod 3, day := 1, ms := 0\<rparr>"

definition endOfQuarter :: "Date \<Rightarrow> Date" where
  "endOfQuarter d =
     (let m = month d - month d mod 3 + 2
      in d\<lparr>month := m, day := daysInMonth (year d) m, ms := end_of_day\<rparr>)"

definition startOfYear :: "Date \<Rightarrow> Date" where
  "startOfYear d = d\<lparr>month := 0, day := 1, ms := 0\<rparr>"

definition endOfYear :: "Date \<Rightarrow> Date" where
  "endOfYear d = d\<lparr>month := 11, day := 31, ms := end_of_day\<rparr>"

definition subMonths :: "Date \<Rightarrow> nat \<Rightarrow> Date" where
  "subMonths d n =
     (let total = year d * 12 + int (month d) - int n;
          y = total div 12; m = nat (total mod 12)
      in d\<lparr>year := y, month := m, day := min (day d) (daysInMonth y m)\<rparr>)"

text \<open>
  \<open>d.setFullYear(y)\<close>: 29 February becomes 1 March when \<open>y\<close> is not a leap year.
\<close>

definition setFullYear :: "Date \<Rightarrow> int \<Rightarrow> Date" where
  "setFullYear d y =
     (if month d = 1 \<and> daysInMonth y 1 < day d then d\<lparr>year := y, month := 2, day := 1\<rparr>
      else d\<lparr>year := y\<rparr>)"

record DateRange =
  range_start :: Date
  range_end :: Date

definition dateRange :: "TimeFilter \<Rightarrow> Date \<Rightarrow> DateRange" where
  "dateRange timeFilter now =
     (case timeFilter of
        weekly \<Rightarrow> \<lparr>range_start = startOfWeek now, range_end = endOfWeek now\<rparr>
      | monthly \<Rightarrow> \<lparr>range_start = startOfMonth now, range_end = endOfMonth now\<rparr>
      | quarterly \<Rightarrow> \<lparr>range_start = startOfQuarter now, range_end = endOfQuarter now\<rparr>
      | yearly \<Rightarrow> \<lparr>range_start = startOfYear now, range_end = endOfYear now\<rparr>)"

text \<open>
  The bounds that \<open>previousPeriodTransactions\<close> computes before it filters. The memo
  takes the window \<open>dateRange\<close> computed earlier and reads the clock again: \<open>dr\<close> is
  that window and \<open>now\<close> the second reading.
\<close>

definition previousPeriod :: "TimeFilter \<Rightarrow> DateRange \<Rightarrow> Date \<Rightarrow> DateRange" where
  "previousPeriod timeFilter dr now =
     (case timeFilter of
        weekly \<Rightarrow>
          (let prevEnd = prev_day (range_start dr)
           in \<lparr>range_start = startOfWeek prevEnd, range_end = prevEnd\<rparr>)
      | monthly \<Rightarrow>
          (let prevMonth = subMonths now 1
           in \<lparr>range_start = startOfMonth prevMonth, range_end = endOfMonth prevMonth\<rparr>)
      | quarterly \<Rightarrow>
          (let prevEnd = prev_day (range_start dr)
           in \<lparr>range_start = startOfQuarter prevEnd, range_end = prevEnd\<rparr>)
      | yearly \<Rightarrow>
          (let prevYear = setFullYear now (year now - 1)
           in \<lparr>range_start = startOfYear prevYear, range_end = endOfYear prevYear\<rparr>))"

text \<open>
  \<open>parseISO\<close> is the library's, taken as a parameter; \<open>None\<close> is the invalid date,
  for which every comparison is false.
\<close>

record TransactionModel =
  tx_amount :: jsnum
  transaction_time :: string

definition in_range :: "(string \<Rightarrow> Date option) \<Rightarrow> DateRange \<Rightarrow> TransactionModel \<Rightarrow> bool" where
  "in_range parseISO dr tx =
     (case parseISO (transaction_time tx) of
        None \<Rightarrow> False
      | Some txDate \<Rightarrow> date_le (range_start dr) txDate \<and> date_le txDate (range_end dr))"

definition filteredTransactions ::
  "(string \<Rightarrow> Date option) \<Rightarrow> DateRange \<Rightarrow> TransactionModel list \<Rightarrow> TransactionModel list" where
  "filteredTransactions parseISO dr txs = filter (in_range parseISO dr) txs"

definition previousPeriodTransactions ::
  "(string \<Rightarrow> Date option) \<Rightarrow> TimeFilter \<Rightarrow> DateRange \<Rightarrow> Date \<Rightarrow> TransactionModel list
     \<Rightarrow> TransactionModel list" where
  "previousPeriodTransactions parseISO timeFilter dr now txs =
     filter (in_range parseISO (previousPeriod timeFilter dr now)) txs"



section \<open>Properties\<close>

subsection \<open>Evaluating rounded arithmetic\<close>

text \<open>
  Equations by which the simplifier computes \<open>f64\<close> and the rounded operations on
  numerals.
\<close>

lemma bit_length_numeral:
  "bit_length 0 = 0" "bit_length 1 = Suc 0"
  "bit_length (numeral (Num.Bit0 k)) = Suc (bit_length (numeral k))"
  "bit_length (numeral (Num.Bit1 k)) = Suc (bit_length (numeral k))"
proof -
  show "bit_length 0 = 0" by (simp add: bit_length.simps)
  show "bit_length 1 = Suc 0"
    by (simp add: bit_length.simps [of 1] bit_length.simps [of 0])
  have "numeral (Num.Bit0 k) div 2 = (numeral k :: int)" by simp
  then show "bit_length (numeral (Num.Bit0 k)) = Suc (bit_length (numeral k))"
    by (subst bit_length.simps) simp
  have "numeral (Num.Bit1 k) div 2 = (numeral k :: int)" by simp
  then show "bit_length (numeral (Num.Bit1 k)) = Suc (bit_length (numeral k))"
    by (subst bit_length.simps) simp
qed

lemma floor_rat_numeral:
  "\<lfloor>(numeral a :: rat) / numeral b\<rfloor> = numeral a div numeral b"
  "\<lfloor>(1 :: rat) / numeral b\<rfloor> = 1 div numeral b"
  "\<lceil>(numeral a :: rat) / numeral b\<rceil> = - (- numeral a div numeral b)"
  "\<lceil>(1 :: rat) / numeral b\<rceil> = - (- 1 div numeral b)"
  using floor_divide_of_int_eq [of "numeral a" "numeral b", where ?'a = rat]
    floor_divide_of_int_eq [of 1 "numeral b", where ?'a = rat]
    floor_divide_of_int_eq [of "- numeral a" "numeral b", where ?'a = rat]
    floor_divide_of_int_eq [of "- 1" "numeral b", where ?'a = rat]
  by (simp_all add: ceiling_def)

lemmas f64_eval = f64_def ilog2_def pow2_def round_half_even_def Let_def bit_length_numeral
  round_double_def f64_add_def f64_mul_def f64_div_def signed_inf_def floor_rat_numeral

lemma js_lt_NaN [simp]: "js_lt x NaN = False"
  by (cases x) simp_all

text \<open>Some literals of the sources and their doubles.\<close>

lemma f64_literals:
  "f64 100 = Fin 100"
  "f64 (1 / 10) = Fin (3602879701896397 / 36028797018963968)"
  "f64 (7 / 10) = Fin (3152519739159347 / 4503599627370496)"
  "f64 (9 / 10) = Fin (8106479329266893 / 9007199254740992)"
  by (simp_all add: f64_eval)

subsection \<open>Budgets and period totals\<close>


lemma js_cmp_Fin [simp]:
  "js_eq (Fin a) (Fin b) = (a = b)"
  "js_gt (Fin a) (Fin b) = (b < a)"
  "js_le (Fin a) (Fin b) = (a \<le> b)"
  "js_ge (Fin a) (Fin b) = (b \<le> a)"
  by (auto simp: js_eq_def js_gt_def js_le_def js_ge_def)

lemma js_sub_Fin [simp]: "js_sub (Fin a) (Fin b) = Fin (a - b)"
  by (simp add: js_sub_def)

text \<open>
  C1. A budget whose spending has reached its limit is reported as "warning", not as
  "exceeded": the alert threshold is tested first, and with the form's default
  threshold of 80 every utilisation of 100 or more already passes that test.
\<close>

theorem getBudgetStatus_at_limit:
  "getBudgetStatus \<lparr>category_name = ''Food'', monthly_limit = Fin 100,
      current_spent = Fin 100, alert_threshold = Fin 80\<rparr> = ''warning''"
  by (simp add: getBudgetStatus_def budgetPercentage_def)

text \<open>
  C2. With a monthly limit of 0 the utilisation is not 0: a budget that has spending
  has the utilisation Infinity and the status "warning", and one without spending has
  the utilisation NaN.
\<close>

theorem budgetPercentage_zero_limit:
  "budgetPercentage \<lparr>category_name = ''Food'', monthly_limit = Fin 0,
      current_spent = Fin 50, alert_threshold = Fin 80\<rparr> = PosInf
   \<and> getBudgetStatus \<lparr>category_name = ''Food'', monthly_limit = Fin 0,
      current_spent = Fin 50, alert_threshold = Fin 80\<rparr> = ''warning''
   \<and> budgetPercentage \<lparr>category_name = ''Food'', monthly_limit = Fin 0,
      current_spent = Fin 0, alert_threshold = Fin 80\<rparr> = NaN"
  by (simp add: getBudgetStatus_def budgetPercentage_def signed_inf_def js_ge_def js_le_def
      js_eq_def)



subsection \<open>Savings goals\<close>

lemma find_milestone:
  "find (\<lambda>m. js_lt old (percentage m) \<and> js_ge new (percentage m)) MILESTONES =
     (if js_lt old (Fin 25) \<and> js_ge new (Fin 25) then Some (MILESTONES ! 0)
      else if js_lt old (Fin 50) \<and> js_ge new (Fin 50) then Some (MILESTONES ! 1)
      else if js_lt old (Fin 75) \<and> js_ge new (Fin 75) then Some (MILESTONES ! 2)
      else if js_lt old (Fin 100) \<and> js_ge new (Fin 100) then Some (MILESTONES ! 3)
      else None)"
  by (simp add: MILESTONES_def)

lemma js_gt_zero_valid_amount: "js_gt x (Fin 0) \<Longrightarrow> \<not> js_le x (Fin 0)"
  by (cases x) (auto simp: js_gt_def js_le_def js_eq_def)

lemma toFixed2_Fin:
  assumes "0 \<le> q" and "nat \<lfloor>q * 100 + 1 / 2\<rfloor> = n"
  shows "toFixed2 (Fin q) =
           show_nat (n div 100) @ ''.'' @ [digit_char (n mod 100 div 10), digit_char (n mod 10)]"
  using assms by (simp add: toFixed2_def Let_def)

lemma toFixed2_examples:
  "toFixed2 (Fin (5404319552844595 / 4503599627370496)) = ''1.20''"
  "toFixed2 (Fin (1393301134717747 / 140737488355328)) = ''9.90''"
proof -
  have "toFixed2 (Fin (5404319552844595 / 4503599627370496)) =
      show_nat (120 div 100) @ ''.'' @ [digit_char (120 mod 100 div 10), digit_char (120 mod 10)]"
    by (rule toFixed2_Fin) (simp_all add: floor_rat_numeral)
  also have "\<dots> = ''1.20''" by code_simp
  finally show "toFixed2 (Fin (5404319552844595 / 4503599627370496)) = ''1.20''" .
  have "toFixed2 (Fin (1393301134717747 / 140737488355328)) =
      show_nat (990 div 100) @ ''.'' @ [digit_char (990 mod 100 div 10), digit_char (990 mod 10)]"
    by (rule toFixed2_Fin) (simp_all add: floor_rat_numeral)
  also have "\<dots> = ''9.90''" by code_simp
  finally show "toFixed2 (Fin (1393301134717747 / 140737488355328)) = ''9.90''" .
qed

lemma parseFloat_examples:
  "parseFloat_decimal ''1.2'' = Fin (6 / 5)"
  "parseFloat_decimal ''0.65'' = Fin (13 / 20)"
  "parseFloat_decimal ''80'' = Fin 80"
  "parseFloat_decimal ''0.1'' = Fin (1 / 10)"
  "parseFloat_decimal ''0.15'' = Fin (3 / 20)"
  by code_simp+

text \<open>
  C3. A positive contribution is added to a goal. With \<open>old\<close> and \<open>new\<close> the percentages
  of the target before and after, as the handler computes them on doubles, exactly one
  toast is shown when the write succeeds. If some threshold \<open>q\<close> of 25, 50, 75, 100 has
  \<open>old < q \<le> new\<close>, the toast is the canned message of the lowest such threshold, and
  of no other; if none has, the toast is the plain confirmation of the amount and no
  milestone message is shown. When the write fails the only toast is the error, so
  there is never more than one milestone message. The rounding decides at the
  thresholds: 8.7 plus 1.2 of a target of 9.9 stays below 100 percent, and 6.6 plus
  0.65 of a target of 14.5 reaches 50 percent.
\<close>

theorem milestone_lowest_crossed:
  assumes "s \<noteq> []" and "js_gt (parseFloat s) (Fin 0)"
  shows "(let goal = \<lparr>goal_name = n, target_amount = t, current_amount = c,
                       is_completed = b\<rparr>;
              old = f64_mul (f64_div c t) (Fin 100);
              balance = f64_add c (parseFloat s);
              new = f64_mul (f64_div balance t) (Fin 100);
              r = handleAddContribution parseFloat True goal s
          in (if \<exists>q \<in> {25, 50, 75, 100}. js_lt old (Fin q) \<and> js_ge new (Fin q)
              then \<exists>m \<in> set MILESTONES. \<exists>p. percentage m = Fin p
                     \<and> js_lt old (Fin p) \<and> js_ge new (Fin p)
                     \<and> (\<forall>q \<in> {25, 50, 75, 100}.
                           js_lt old (Fin q) \<and> js_ge new (Fin q) \<longrightarrow> p \<le> q)
                     \<and> toasts r = [ToastSuccess (label m) (message m)]
              else toasts r = [ToastSuccess (''Added $'' @ toFixed2 (parseFloat s))
                                 (''New balance: $'' @ toFixed2 balance)])
             \<and> toasts (handleAddContribution parseFloat False goal s)
               = [ToastError ''Failed to add contribution''])"
  unfolding Let_def handleAddContribution_def find_milestone
  using assms(1) js_gt_zero_valid_amount [OF assms(2)]
  by (simp add: MILESTONES_def)

theorem milestone_lowest_crossed_witness:
  "toasts (handleAddContribution (\<lambda>s. round_double (parseFloat_decimal s)) True
        \<lparr>goal_name = ''Car'', target_amount = f64 (99 / 10), current_amount = f64 (87 / 10),
           is_completed = False\<rparr> ''1.2'')
     = [ToastSuccess ''Added $1.20'' ''New balance: $9.90'']
   \<and> toasts (handleAddContribution (\<lambda>s. round_double (parseFloat_decimal s)) True
        \<lparr>goal_name = ''Car'', target_amount = f64 (29 / 2), current_amount = f64 (33 / 5),
           is_completed = False\<rparr> ''0.65'')
     = [ToastSuccess ''Halfway There!'' ''Amazing progress! Keep it going!'']
   \<and> toasts (handleAddContribution (\<lambda>s. round_double (parseFloat_decimal s)) True
        \<lparr>goal_name = ''Car'', target_amount = Fin 100, current_amount = Fin 10,
           is_completed = False\<rparr> ''80'')
     = [ToastSuccess ''25% Complete'' ''Great start! You're building momentum!'']
   \<and> toasts (handleAddContribution (\<lambda>s. round_double (parseFloat_decimal s)) False
        \<lparr>goal_name = ''Car'', target_amount = Fin 100, current_amount = Fin 10,
           is_completed = False\<rparr> ''80'')
     = [ToastError ''Failed to add contribution'']"
proof -
  define pf where "pf = (\<lambda>s. round_double (parseFloat_decimal s))"
  have p: "pf ''1.2'' = Fin (5404319552844595 / 4503599627370496)"
    "pf ''0.65'' = Fin (5854679515581645 / 9007199254740992)"
    "pf ''80'' = Fin 80"
    by (simp_all add: pf_def parseFloat_examples f64_eval)
  have old1: "f64_mul (f64_div (f64 (87 / 10)) (f64 (99 / 10))) (Fin 100)
      = Fin (6183919942885623 / 70368744177664)"
    by (simp add: f64_eval)
  have bal1: "f64_add (f64 (87 / 10)) (Fin (5404319552844595 / 4503599627370496))
      = Fin (1393301134717747 / 140737488355328)"
    by (simp add: f64_eval)
  have new1: "f64_mul (f64_div (Fin (1393301134717747 / 140737488355328)) (f64 (99 / 10)))
        (Fin 100) = Fin (3518437208883199 / 35184372088832)"
    by (simp add: f64_eval)
  have a: "toasts (handleAddContribution pf True
        \<lparr>goal_name = ''Car'', target_amount = f64 (99 / 10), current_amount = f64 (87 / 10),
           is_completed = False\<rparr> ''1.2'')
     = [ToastSuccess ''Added $1.20'' ''New balance: $9.90'']"
    using milestone_lowest_crossed [where s = "''1.2''" and parseFloat = pf and n = "''Car''"
        and t = "f64 (99 / 10)" and c = "f64 (87 / 10)" and b = False]
    by (simp add: p old1 bal1 new1 toFixed2_examples js_gt_def Let_def)
  have old2: "f64_mul (f64_div (f64 (33 / 5)) (f64 (29 / 2))) (Fin 100)
      = Fin (6405982228587343 / 140737488355328)"
    by (simp add: f64_eval)
  have bal2: "f64_add (f64 (33 / 5)) (Fin (5854679515581645 / 9007199254740992))
      = Fin (29 / 4)"
    by (simp add: f64_eval)
  have new2: "f64_mul (f64_div (Fin (29 / 4)) (f64 (29 / 2))) (Fin 100) = Fin 50"
    by (simp add: f64_eval)
  have b: "toasts (handleAddContribution pf True
        \<lparr>goal_name = ''Car'', target_amount = f64 (29 / 2), current_amount = f64 (33 / 5),
           is_completed = False\<rparr> ''0.65'')
     = [ToastSuccess ''Halfway There!'' ''Amazing progress! Keep it going!'']"
    using milestone_lowest_crossed [where s = "''0.65''" and parseFloat = pf and n = "''Car''"
        and t = "f64 (29 / 2)" and c = "f64 (33 / 5)" and b = False]
    by (auto simp: p old2 bal2 new2 js_gt_def Let_def MILESTONES_def)
  have old3: "f64_mul (f64_div (Fin 10) (Fin 100)) (Fin 100) = Fin 10"
    by (simp add: f64_eval)
  have bal3: "f64_add (Fin 10) (Fin 80) = Fin 90"
    by (simp add: f64_eval)
  have new3: "f64_mul (f64_div (Fin 90) (Fin 100)) (Fin 100) = Fin 90"
    by (simp add: f64_eval)
  have c: "toasts (handleAddContribution pf True
        \<lparr>goal_name = ''Car'', target_amount = Fin 100, current_amount = Fin 10,
           is_completed = False\<rparr> ''80'')
     = [ToastSuccess ''25% Complete'' ''Great start! You're building momentum!'']
     \<and> toasts (handleAddContribution pf False
        \<lparr>goal_name = ''Car'', target_amount = Fin 100, current_amount = Fin 10,
           is_completed = False\<rparr> ''80'')
     = [ToastError ''Failed to add contribution'']"
    using milestone_lowest_crossed [where s = "''80''" and parseFloat = pf and n = "''Car''"
        and t = "Fin 100" and c = "Fin 10" and b = False]
    by (auto simp: p old3 bal3 new3 js_gt_def Let_def MILESTONES_def)
  show ?thesis using a b c unfolding pf_def by simp
qed

text \<open>
  C9. The progress shown for a goal is the percentage \<open>current / target * 100\<close>, as
  computed on doubles, capped at 100: a goal at 0 of 100 shows 0, at 100 of 100 shows
  100, and at 150 of 100 shows 100. The goal written after a positive contribution
  carries the rounded sum as its new amount, and is completed exactly when that
  stored amount has reached the target: 0.7 plus 0.1 is stored as 0.7999999999999999,
  which has not reached a target of 0.8.
\<close>

theorem goal_progress_and_completion:
  "(let goal = \<lparr>goal_name = n, target_amount = t, current_amount = c, is_completed = b\<rparr>;
        pct = f64_mul (f64_div c t) (Fin 100);
        balance = f64_add c (parseFloat s)
    in (\<forall>p. pct = Fin p \<longrightarrow> getProgress goal = Fin (min p 100))
       \<and> (pct = PosInf \<longrightarrow> getProgress goal = Fin 100)
       \<and> (pct = NegInf \<or> pct = NaN \<longrightarrow> getProgress goal = pct)
       \<and> (s \<noteq> [] \<and> js_gt (parseFloat s) (Fin 0) \<longrightarrow>
            saved (handleAddContribution parseFloat True goal s) =
              Some \<lparr>goal_name = n, target_amount = t, current_amount = balance,
                     is_completed = js_ge balance t\<rparr>))"
proof -
  have s: "s \<noteq> [] \<Longrightarrow> js_gt (parseFloat s) (Fin 0) \<Longrightarrow>
      saved (handleAddContribution parseFloat True
        \<lparr>goal_name = n, target_amount = t, current_amount = c, is_completed = b\<rparr> s) =
      Some \<lparr>goal_name = n, target_amount = t, current_amount = f64_add c (parseFloat s),
             is_completed = js_ge (f64_add c (parseFloat s)) t\<rparr>"
    using js_gt_zero_valid_amount [of "parseFloat s"]
    by (simp add: handleAddContribution_def Let_def)
  show ?thesis
    unfolding Let_def getProgress_def using s
    by (auto simp: js_min_def min_def)
qed

theorem goal_progress_and_completion_witness:
  "getProgress \<lparr>goal_name = ''Car'', target_amount = Fin 100, current_amount = Fin 0,
        is_completed = False\<rparr> = Fin 0
   \<and> getProgress \<lparr>goal_name = ''Car'', target_amount = Fin 100, current_amount = Fin 100,
        is_completed = True\<rparr> = Fin 100
   \<and> getProgress \<lparr>goal_name = ''Car'', target_amount = Fin 100, current_amount = Fin 150,
        is_completed = True\<rparr> = Fin 100
   \<and> getProgress \<lparr>goal_name = ''Car'', target_amount = Fin 3, current_amount = Fin 1,
        is_completed = False\<rparr> = f64 (3333333333333333 / 100000000000000)
   \<and> saved (handleAddContribution (\<lambda>s. round_double (parseFloat_decimal s)) True
        \<lparr>goal_name = ''Car'', target_amount = f64 (8 / 10), current_amount = f64 (7 / 10),
           is_completed = False\<rparr> ''0.1'')
     = Some \<lparr>goal_name = ''Car'', target_amount = f64 (8 / 10),
           current_amount = f64 (7999999999999999 / 10000000000000000),
           is_completed = False\<rparr>
   \<and> f64 (7999999999999999 / 10000000000000000) \<noteq> f64 (8 / 10)
   \<and> saved (handleAddContribution (\<lambda>s. round_double (parseFloat_decimal s)) True
        \<lparr>goal_name = ''Car'', target_amount = f64 (148 / 10),
           current_amount = f64 (1465 / 100), is_completed = False\<rparr> ''0.15'')
     = Some \<lparr>goal_name = ''Car'', target_amount = f64 (148 / 10),
           current_amount = f64 (148 / 10), is_completed = True\<rparr>"
proof -
  define pf where "pf = (\<lambda>s. round_double (parseFloat_decimal s))"
  have p: "pf ''0.1'' = Fin (3602879701896397 / 36028797018963968)"
    "pf ''0.15'' = Fin (5404319552844595 / 36028797018963968)"
    by (simp_all add: pf_def parseFloat_examples f64_eval)
  have pct: "f64_mul (f64_div (Fin 0) (Fin 100)) (Fin 100) = Fin 0"
    "f64_mul (f64_div (Fin 100) (Fin 100)) (Fin 100) = Fin 100"
    "f64_mul (f64_div (Fin 150) (Fin 100)) (Fin 100) = Fin 150"
    "f64_mul (f64_div (Fin 1) (Fin 3)) (Fin 100) = Fin (2345624805922133 / 70368744177664)"
    by (simp_all add: f64_eval)
  have lit: "f64 (3333333333333333 / 100000000000000) = Fin (2345624805922133 / 70368744177664)"
    "f64 (7999999999999999 / 10000000000000000) = Fin (7205759403792793 / 9007199254740992)"
    "f64 (4 / 5) = Fin (3602879701896397 / 4503599627370496)"
    "f64 (74 / 5) = Fin (4165829655317709 / 281474976710656)"
    by (simp_all add: f64_eval)
  have g: "getProgress \<lparr>goal_name = ''Car'', target_amount = Fin 100, current_amount = Fin 0,
        is_completed = False\<rparr> = Fin 0
   \<and> getProgress \<lparr>goal_name = ''Car'', target_amount = Fin 100, current_amount = Fin 100,
        is_completed = True\<rparr> = Fin 100
   \<and> getProgress \<lparr>goal_name = ''Car'', target_amount = Fin 100, current_amount = Fin 150,
        is_completed = True\<rparr> = Fin 100
   \<and> getProgress \<lparr>goal_name = ''Car'', target_amount = Fin 3, current_amount = Fin 1,
        is_completed = False\<rparr> = f64 (3333333333333333 / 100000000000000)"
    using goal_progress_and_completion [where n = "''Car''" and t = "Fin 100" and c = "Fin 0"
        and b = False and s = "[]" and parseFloat = pf]
      goal_progress_and_completion [where n = "''Car''" and t = "Fin 100" and c = "Fin 100"
        and b = True and s = "[]" and parseFloat = pf]
      goal_progress_and_completion [where n = "''Car''" and t = "Fin 100" and c = "Fin 150"
        and b = True and s = "[]" and parseFloat = pf]
      goal_progress_and_completion [where n = "''Car''" and t = "Fin 3" and c = "Fin 1"
        and b = False and s = "[]" and parseFloat = pf]
    by (simp add: Let_def pct lit)
  have bal1: "f64_add (f64 (7 / 10)) (Fin (3602879701896397 / 36028797018963968))
      = Fin (7205759403792793 / 9007199254740992)"
    by (simp add: f64_eval)
  have a: "saved (handleAddContribution pf True
        \<lparr>goal_name = ''Car'', target_amount = f64 (4 / 5), current_amount = f64 (7 / 10),
           is_completed = False\<rparr> ''0.1'')
     = Some \<lparr>goal_name = ''Car'', target_amount = f64 (4 / 5),
           current_amount = f64 (7999999999999999 / 10000000000000000),
           is_completed = False\<rparr>"
    using goal_progress_and_completion [where n = "''Car''" and t = "f64 (4 / 5)"
        and c = "f64 (7 / 10)" and b = False and s = "''0.1''" and parseFloat = pf]
    by (simp add: Let_def p bal1 lit js_gt_def js_ge_def js_le_def js_eq_def)
  have bal2: "f64_add (f64 (293 / 20)) (Fin (5404319552844595 / 36028797018963968))
      = Fin (4165829655317709 / 281474976710656)"
    by (simp add: f64_eval)
  have b: "saved (handleAddContribution pf True
        \<lparr>goal_name = ''Car'', target_amount = f64 (74 / 5), current_amount = f64 (293 / 20),
           is_completed = False\<rparr> ''0.15'')
     = Some \<lparr>goal_name = ''Car'', target_amount = f64 (74 / 5),
           current_amount = f64 (74 / 5), is_completed = True\<rparr>"
    using goal_progress_and_completion [where n = "''Car''" and t = "f64 (74 / 5)"
        and c = "f64 (293 / 20)" and b = False and s = "''0.15''" and parseFloat = pf]
    by (simp add: Let_def p bal2 lit js_gt_def js_ge_def js_le_def js_eq_def)
  have ne: "f64 (7999999999999999 / 10000000000000000) \<noteq> f64 (4 / 5)"
    by (simp add: lit)
  show ?thesis using g a b ne unfolding pf_def by simp
qed

subsection \<open>Subscriptions\<close>





subsection \<open>The chat-completion hooks\<close>

lemma daily_insight_success:
  assumes "transactions input = Some (t # ts)" and "budgetStatus input = Some budget"
      and "spendingPatterns input = Some patterns"
      and "response_content ''Failed to generate daily insight'' response
             = Inr (aiResponse, content)"
  shows "useGenerateDailyInsight input response =
     \<lparr>api_calls = 1,
      outcome = Inr
        \<lparr>insight = (if join '' '' (take 2 (content_lines content)) \<noteq> []
                    then join '' '' (take 2 (content_lines content)) else content),
         suggestions =
           (if map (\<lambda>s. trim (strip_bullet s)) (filter bulleted (drop 2 (content_lines content)))
                 \<noteq> []
            then map (\<lambda>s. trim (strip_bullet s))
                   (filter bulleted (drop 2 (content_lines content)))
            else [content]),
         sentiment =
           (if js_lt (f64_div (spent budget) (totalBudget budget)) (f64 (7 / 10))
            then ''positive''
            else if js_gt (f64_div (spent budget) (totalBudget budget)) (f64 (9 / 10))
            then ''warning'' else ''neutral''),
         metadata = response_metadata aiResponse\<rparr>\<rparr>"
  using assms by (simp add: useGenerateDailyInsight_def Let_def)

lemma one_line_reply:
  "content_lines ''Set a budget.'' = [''Set a budget.'']"
  "join '' '' [''Set a budget.''] = ''Set a budget.''"
  "content_lines ''Great job, keep going!'' = [''Great job, keep going!'']"
  "join '' '' [''Great job, keep going!''] = ''Great job, keep going!''"
  "content_lines ''You are overspending.'' = [''You are overspending.'']"
  "join '' '' [''You are overspending.''] = ''You are overspending.''"
  by code_simp+

text \<open>
  C5, as stated, fails for a zero budget: given one transaction and a budget status
  whose total budget is 0, the daily-insight builder raises nothing, issues the request
  and returns the parsed insight.
\<close>

theorem daily_insight_zero_budget_calls_api:
  "api_calls (useGenerateDailyInsight
     \<lparr>transactions = Some [\<lparr>txn_amount = Fin 5, txn_category = ''Food'',
                              txn_description = ''Coffee''\<rparr>],
      budgetStatus = Some \<lparr>totalBudget = Fin 0, spent = Fin 0, remaining = Fin 0\<rparr>,
      spendingPatterns = Some \<lparr>averageDaily = Fin 0\<rparr>\<rparr>
     \<lparr>error = None,
      data = Some \<lparr>choices = Some [Some ''Set a budget.''], total_tokens = Some 9,
                   model = ''MaaS_4.1''\<rparr>\<rparr>) = 1
   \<and> outcome (useGenerateDailyInsight
     \<lparr>transactions = Some [\<lparr>txn_amount = Fin 5, txn_category = ''Food'',
                              txn_description = ''Coffee''\<rparr>],
      budgetStatus = Some \<lparr>totalBudget = Fin 0, spent = Fin 0, remaining = Fin 0\<rparr>,
      spendingPatterns = Some \<lparr>averageDaily = Fin 0\<rparr>\<rparr>
     \<lparr>error = None,
      data = Some \<lparr>choices = Some [Some ''Set a budget.''], total_tokens = Some 9,
                   model = ''MaaS_4.1''\<rparr>\<rparr>) =
     Inr \<lparr>insight = ''Set a budget.'', suggestions = [''Set a budget.''],
          sentiment = ''neutral'',
          metadata = \<lparr>tokensUsed = 9, modelUsed = ''MaaS_4.1''\<rparr>\<rparr>"
proof -
  have rc: "response_content ''Failed to generate daily insight''
      \<lparr>error = None,
       data = Some \<lparr>choices = Some [Some ''Set a budget.''], total_tokens = Some 9,
                    model = ''MaaS_4.1''\<rparr>\<rparr>
    = Inr (\<lparr>choices = Some [Some ''Set a budget.''], total_tokens = Some 9,
            model = ''MaaS_4.1''\<rparr>, ''Set a budget.'')"
    by (simp add: response_content_def)
  show ?thesis
    by (simp add: daily_insight_success [OF _ _ _ rc] one_line_reply response_metadata_def
        f64_div_def round_double_def js_gt_def)
qed

text \<open>
  C5, amended. Both builders raise their validation error, with no request issued, for
  a missing or empty transaction list; the savings-recommendation builder, the only
  one that takes an income, raises it for an income that is zero, negative or NaN;
  the budget's amounts are not validated: the daily-insight builder issues the request
  whenever it has a transaction, a budget status and spending patterns.
\<close>

theorem prompt_builders_validate:
  "(transactions input = None \<or> transactions input = Some [] \<longrightarrow>
      useGenerateDailyInsight input response =
        \<lparr>api_calls = 0,
         outcome = Inl ''At least one transaction is required to generate insights''\<rparr>)
   \<and> (sr_transactions sr_input = None \<or> sr_transactions sr_input = Some [] \<longrightarrow>
      api_calls (useGenerateSavingsRecommendation sr_input response) = 0
      \<and> outcome (useGenerateSavingsRecommendation sr_input response) =
          Inl (if savingsGoal sr_input = None then ''Savings goal is required''
               else ''Transaction history is required to generate recommendations''))
   \<and> (monthlyIncome sr_input = NaN \<or> js_le (monthlyIncome sr_input) (Fin 0) \<longrightarrow>
      api_calls (useGenerateSavingsRecommendation sr_input response) = 0
      \<and> outcome (useGenerateSavingsRecommendation sr_input response) =
          Inl (if savingsGoal sr_input = None then ''Savings goal is required''
               else if sr_transactions sr_input = None \<or> sr_transactions sr_input = Some []
               then ''Transaction history is required to generate recommendations''
               else ''Valid monthly income is required''))
   \<and> (transactions input = Some (t # ts) \<and> budgetStatus input = Some budget
        \<and> spendingPatterns input = Some patterns \<longrightarrow>
      api_calls (useGenerateDailyInsight input response) = 1)"
  by (auto simp: useGenerateDailyInsight_def useGenerateSavingsRecommendation_def
      throw_before_call_def throw_after_call_def js_falsy_def Let_def
      split: option.splits sum.splits prod.splits)

theorem prompt_builders_validate_witness:
  "useGenerateDailyInsight
     \<lparr>transactions = Some [],
      budgetStatus = Some \<lparr>totalBudget = Fin 500, spent = Fin 100, remaining = Fin 400\<rparr>,
      spendingPatterns = Some \<lparr>averageDaily = Fin 10\<rparr>\<rparr>
     \<lparr>error = None, data = None\<rparr> =
     \<lparr>api_calls = 0,
      outcome = Inl ''At least one transaction is required to generate insights''\<rparr>
   \<and> useGenerateSavingsRecommendation
     \<lparr>savingsGoal = Some \<lparr>goalName = ''Car'', targetAmount = Fin 1000, currentAmount = Fin 0\<rparr>,
      sr_transactions = Some [], monthlyIncome = Fin 5000,
      sr_spendingPatterns = Some \<lparr>averageDaily = Fin 10\<rparr>\<rparr>
     \<lparr>error = None, data = None\<rparr> =
     \<lparr>api_calls = 0,
      outcome = Inl ''Transaction history is required to generate recommendations''\<rparr>
   \<and> useGenerateSavingsRecommendation
     \<lparr>savingsGoal = Some \<lparr>goalName = ''Car'', targetAmount = Fin 1000, currentAmount = Fin 0\<rparr>,
      sr_transactions = Some [\<lparr>txn_amount = Fin 5, txn_category = ''Food'',
                                 txn_description = ''Coffee''\<rparr>],
      monthlyIncome = Fin 0,
      sr_spendingPatterns = Some \<lparr>averageDaily = Fin 10\<rparr>\<rparr>
     \<lparr>error = None, data = None\<rparr> =
     \<lparr>api_calls = 0, outcome = Inl ''Valid monthly income is required''\<rparr>
   \<and> api_calls (useGenerateDailyInsight
     \<lparr>transactions = Some [\<lparr>txn_amount = Fin 5, txn_category = ''Food'',
                              txn_description = ''Coffee''\<rparr>],
      budgetStatus = Some \<lparr>totalBudget = Fin 0, spent = Fin 0, remaining = Fin 0\<rparr>,
      spendingPatterns = Some \<lparr>averageDaily = Fin 0\<rparr>\<rparr>
     \<lparr>error = None, data = None\<rparr>) = 1"
  using prompt_builders_validate [of
      "\<lparr>transactions = Some [],
      budgetStatus = Some \<lparr>totalBudget = Fin 500, spent = Fin 100, remaining = Fin 400\<rparr>,
      spendingPatterns = Some \<lparr>averageDaily = Fin 10\<rparr>\<rparr>"
      "\<lparr>error = None, data = None\<rparr>"
      "\<lparr>savingsGoal = Some \<lparr>goalName = ''Car'', targetAmount = Fin 1000, currentAmount = Fin 0\<rparr>,
      sr_transactions = Some [], monthlyIncome = Fin 5000,
      sr_spendingPatterns = Some \<lparr>averageDaily = Fin 10\<rparr>\<rparr>"]
    prompt_builders_validate [of
      "\<lparr>transactions = Some [\<lparr>txn_amount = Fin 5, txn_category = ''Food'',
                              txn_description = ''Coffee''\<rparr>],
      budgetStatus = Some \<lparr>totalBudget = Fin 0, spent = Fin 0, remaining = Fin 0\<rparr>,
      spendingPatterns = Some \<lparr>averageDaily = Fin 0\<rparr>\<rparr>"
      "\<lparr>error = None, data = None\<rparr>"
      "\<lparr>savingsGoal = Some \<lparr>goalName = ''Car'', targetAmount = Fin 1000, currentAmount = Fin 0\<rparr>,
      sr_transactions = Some [\<lparr>txn_amount = Fin 5, txn_category = ''Food'',
                                 txn_description = ''Coffee''\<rparr>],
      monthlyIncome = Fin 0,
      sr_spendingPatterns = Some \<lparr>averageDaily = Fin 10\<rparr>\<rparr>"
      "\<lparr>txn_amount = Fin 5, txn_category = ''Food'', txn_description = ''Coffee''\<rparr>" "[]"
      "\<lparr>totalBudget = Fin 0, spent = Fin 0, remaining = Fin 0\<rparr>"
      "\<lparr>averageDaily = Fin 0\<rparr>"]
  by simp

lemma daily_insight_sentiment:
  assumes "outcome (useGenerateDailyInsight input response) = Inr r"
  shows "\<exists>budget. budgetStatus input = Some budget
              \<and> sentiment r =
                  (let ratio = f64_div (spent budget) (totalBudget budget)
                   in if js_lt ratio (f64 (7 / 10)) then ''positive''
                      else if js_gt ratio (f64 (9 / 10)) then ''warning''
                      else ''neutral'')"
proof (cases "transactions input = None \<or> transactions input = Some []")
  case True
  then show ?thesis
    using assms by (simp add: useGenerateDailyInsight_def throw_before_call_def)
next
  case False
  then show ?thesis
    using assms
    by (simp add: useGenerateDailyInsight_def throw_before_call_def throw_after_call_def
        Let_def split: option.splits sum.splits prod.splits) auto
qed

text \<open>
  C8. The sentiment of a generated daily insight is a function of the budget alone:
  with \<open>ratio\<close> the double that the division \<open>spent / totalBudget\<close> yields, it is
  "positive" when \<open>ratio\<close> is below the double of the literal \<open>0.7\<close>, "warning" when it
  is above the double of \<open>0.9\<close>, and "neutral" otherwise, which includes the NaN of
  \<open>0 / 0\<close>. Two runs on the same input with different replies of the AI service yield
  the same sentiment.
\<close>

theorem sentiment_from_budget_only:
  assumes "outcome (useGenerateDailyInsight input response1) = Inr r1"
      and "outcome (useGenerateDailyInsight input response2) = Inr r2"
  shows "sentiment r1 = sentiment r2
         \<and> (\<exists>budget. budgetStatus input = Some budget
              \<and> sentiment r1 =
                  (let ratio = f64_div (spent budget) (totalBudget budget)
                   in if js_lt ratio (f64 (7 / 10)) then ''positive''
                      else if js_gt ratio (f64 (9 / 10)) then ''warning''
                      else ''neutral''))"
  using daily_insight_sentiment [OF assms(1)] daily_insight_sentiment [OF assms(2)]
  by auto

theorem sentiment_from_budget_only_witness:
  "outcome (useGenerateDailyInsight
      \<lparr>transactions = Some [\<lparr>txn_amount = Fin 5, txn_category = ''Food'',
                               txn_description = ''Coffee''\<rparr>],
       budgetStatus = Some \<lparr>totalBudget = f64 (33 / 10), spent = f64 (297 / 100),
                            remaining = f64 (33 / 100)\<rparr>,
       spendingPatterns = Some \<lparr>averageDaily = Fin 3\<rparr>\<rparr>
      \<lparr>error = None,
       data = Some \<lparr>choices = Some [Some ''Great job, keep going!''], total_tokens = Some 9,
                    model = ''MaaS_4.1''\<rparr>\<rparr>) =
     Inr \<lparr>insight = ''Great job, keep going!'', suggestions = [''Great job, keep going!''],
          sentiment = ''warning'',
          metadata = \<lparr>tokensUsed = 9, modelUsed = ''MaaS_4.1''\<rparr>\<rparr>
   \<and> outcome (useGenerateDailyInsight
      \<lparr>transactions = Some [\<lparr>txn_amount = Fin 5, txn_category = ''Food'',
                               txn_description = ''Coffee''\<rparr>],
       budgetStatus = Some \<lparr>totalBudget = f64 (33 / 10), spent = f64 (297 / 100),
                            remaining = f64 (33 / 100)\<rparr>,
       spendingPatterns = Some \<lparr>averageDaily = Fin 3\<rparr>\<rparr>
      \<lparr>error = None,
       data = Some \<lparr>choices = Some [Some ''You are overspending.''], total_tokens = Some 7,
                    model = ''MaaS_4.1''\<rparr>\<rparr>) =
     Inr \<lparr>insight = ''You are overspending.'', suggestions = [''You are overspending.''],
          sentiment = ''warning'',
          metadata = \<lparr>tokensUsed = 7, modelUsed = ''MaaS_4.1''\<rparr>\<rparr>
   \<and> outcome (useGenerateDailyInsight
      \<lparr>transactions = Some [\<lparr>txn_amount = Fin 5, txn_category = ''Food'',
                               txn_description = ''Coffee''\<rparr>],
       budgetStatus = Some \<lparr>totalBudget = Fin 3, spent = f64 (27 / 10),
                            remaining = f64 (3 / 10)\<rparr>,
       spendingPatterns = Some \<lparr>averageDaily = Fin 3\<rparr>\<rparr>
      \<lparr>error = None,
       data = Some \<lparr>choices = Some [Some ''You are overspending.''], total_tokens = Some 7,
                    model = ''MaaS_4.1''\<rparr>\<rparr>) =
     Inr \<lparr>insight = ''You are overspending.'', suggestions = [''You are overspending.''],
          sentiment = ''neutral'',
          metadata = \<lparr>tokensUsed = 7, modelUsed = ''MaaS_4.1''\<rparr>\<rparr>
   \<and> outcome (useGenerateDailyInsight
      \<lparr>transactions = Some [\<lparr>txn_amount = Fin 5, txn_category = ''Food'',
                               txn_description = ''Coffee''\<rparr>],
       budgetStatus = Some \<lparr>totalBudget = f64 (1 / 2), spent = f64 (35 / 100),
                            remaining = f64 (15 / 100)\<rparr>,
       spendingPatterns = Some \<lparr>averageDaily = Fin 3\<rparr>\<rparr>
      \<lparr>error = None,
       data = Some \<lparr>choices = Some [Some ''Great job, keep going!''], total_tokens = Some 9,
                    model = ''MaaS_4.1''\<rparr>\<rparr>) =
     Inr \<lparr>insight = ''Great job, keep going!'', suggestions = [''Great job, keep going!''],
          sentiment = ''neutral'',
          metadata = \<lparr>tokensUsed = 9, modelUsed = ''MaaS_4.1''\<rparr>\<rparr>"
proof -
  define tx where "tx = [\<lparr>txn_amount = Fin 5, txn_category = ''Food'',
                               txn_description = ''Coffee''\<rparr>]"
  define reply1 where "reply1 = \<lparr>error = None,
       data = Some \<lparr>choices = Some [Some ''Great job, keep going!''], total_tokens = Some 9,
                    model = ''MaaS_4.1''\<rparr>\<rparr>"
  define reply2 where "reply2 = \<lparr>error = None,
       data = Some \<lparr>choices = Some [Some ''You are overspending.''], total_tokens = Some 7,
                    model = ''MaaS_4.1''\<rparr>\<rparr>"
  have rc1: "response_content ''Failed to generate daily insight'' reply1
    = Inr (\<lparr>choices = Some [Some ''Great job, keep going!''], total_tokens = Some 9,
            model = ''MaaS_4.1''\<rparr>, ''Great job, keep going!'')"
    by (simp add: response_content_def reply1_def)
  have rc2: "response_content ''Failed to generate daily insight'' reply2
    = Inr (\<lparr>choices = Some [Some ''You are overspending.''], total_tokens = Some 7,
            model = ''MaaS_4.1''\<rparr>, ''You are overspending.'')"
    by (simp add: response_content_def reply2_def)
  have q1: "f64_div (f64 (297 / 100)) (f64 (33 / 10))
              = Fin (4053239664633447 / 4503599627370496)"
    by (simp add: f64_eval)
  have q2: "f64_div (f64 (27 / 10)) (Fin 3) = Fin (8106479329266893 / 9007199254740992)"
    by (simp add: f64_eval)
  have q3: "f64_div (f64 (35 / 100)) (f64 (1 / 2)) = Fin (3152519739159347 / 4503599627370496)"
    by (simp add: f64_eval)
  note ev = one_line_reply response_metadata_def f64_literals js_gt_def
  have o1: "outcome (useGenerateDailyInsight
      \<lparr>transactions = Some tx,
       budgetStatus = Some \<lparr>totalBudget = f64 (33 / 10), spent = f64 (297 / 100),
                            remaining = f64 (33 / 100)\<rparr>,
       spendingPatterns = Some \<lparr>averageDaily = Fin 3\<rparr>\<rparr> reply1) =
     Inr \<lparr>insight = ''Great job, keep going!'', suggestions = [''Great job, keep going!''],
          sentiment = ''warning'',
          metadata = \<lparr>tokensUsed = 9, modelUsed = ''MaaS_4.1''\<rparr>\<rparr>"
    unfolding tx_def by (simp add: daily_insight_success [OF _ _ _ rc1] ev q1)
  have o2: "outcome (useGenerateDailyInsight
      \<lparr>transactions = Some tx,
       budgetStatus = Some \<lparr>totalBudget = f64 (33 / 10), spent = f64 (297 / 100),
                            remaining = f64 (33 / 100)\<rparr>,
       spendingPatterns = Some \<lparr>averageDaily = Fin 3\<rparr>\<rparr> reply2) =
     Inr \<lparr>insight = ''You are overspending.'', suggestions = [''You are overspending.''],
          sentiment = ''warning'',
          metadata = \<lparr>tokensUsed = 7, modelUsed = ''MaaS_4.1''\<rparr>\<rparr>"
    unfolding tx_def by (simp add: daily_insight_success [OF _ _ _ rc2] ev q1)
  have o3: "outcome (useGenerateDailyInsight
      \<lparr>transactions = Some tx,
       budgetStatus = Some \<lparr>totalBudget = Fin 3, spent = f64 (27 / 10),
                            remaining = f64 (3 / 10)\<rparr>,
       spendingPatterns = Some \<lparr>averageDaily = Fin 3\<rparr>\<rparr> reply2) =
     Inr \<lparr>insight = ''You are overspending.'', suggestions = [''You are overspending.''],
          sentiment = ''neutral'',
          metadata = \<lparr>tokensUsed = 7, modelUsed = ''MaaS_4.1''\<rparr>\<rparr>"
    unfolding tx_def by (simp add: daily_insight_success [OF _ _ _ rc2] ev q2)
  have o4: "outcome (useGenerateDailyInsight
      \<lparr>transactions = Some tx,
       budgetStatus = Some \<lparr>totalBudget = f64 (1 / 2), spent = f64 (35 / 100),
                            remaining = f64 (15 / 100)\<rparr>,
       spendingPatterns = Some \<lparr>averageDaily = Fin 3\<rparr>\<rparr> reply1) =
     Inr \<lparr>insight = ''Great job, keep going!'', suggestions = [''Great job, keep going!''],
          sentiment = ''neutral'',
          metadata = \<lparr>tokensUsed = 9, modelUsed = ''MaaS_4.1''\<rparr>\<rparr>"
    unfolding tx_def by (simp add: daily_insight_success [OF _ _ _ rc1] ev q3 [simplified])
  from sentiment_from_budget_only [OF o1 o2] o1 o2 o3 o4 show ?thesis
    unfolding tx_def reply1_def reply2_def by blast
qed

lemma starts_with_nonempty: "starts_with s p \<Longrightarrow> p \<noteq> [] \<Longrightarrow> s \<noteq> []"
  by (cases s; cases p) auto

lemma first_match_Some:
  "first_match f s = Some r \<Longrightarrow> \<exists>t. f t = Some r"
  by (induction s) (auto split: option.splits)

lemma starts_with_ci_nonempty: "starts_with_ci s p \<Longrightarrow> p \<noteq> [] \<Longrightarrow> s \<noteq> []"
  unfolding starts_with_ci_def toLowerCase_def
  using starts_with_nonempty [of "map lower s" "map lower p"] by simp

lemma difficulty_at_nonempty: "difficulty_at s = Some g \<Longrightarrow> g \<noteq> []"
  unfolding difficulty_at_def Let_def
  by (auto split: if_splits dest: starts_with_ci_nonempty)

lemma difficultyMatch_nonempty: "difficultyMatch l = Some g \<Longrightarrow> toLowerCase g \<noteq> []"
  unfolding difficultyMatch_def
  by (auto dest!: first_match_Some difficulty_at_nonempty simp: toLowerCase_def)

lemma scan_segment:
  assumes "\<forall>l \<in> set seg. recommendationMatch l = None"
  shows "foldl scan_line (acts, cur) seg =
           (acts, cur\<lparr>cur_savings :=
                        (if segment_savings seg = [] then cur_savings cur
                         else Some (last (segment_savings seg))),
                      cur_difficulty :=
                        (if segment_difficulties seg = [] then cur_difficulty cur
                         else Some (last (segment_difficulties seg)))\<rparr>)"
  using assms
proof (induction seg rule: rev_induct)
  case Nil
  then show ?case by (simp add: segment_savings_def segment_difficulties_def map_filter_simps)
next
  case (snoc l seg)
  then show ?case
    by (auto simp: scan_line_def segment_savings_def segment_difficulties_def
        List.map_filter_def split: option.splits)
qed

lemma parse_actions_no_recommendation:
  assumes "\<forall>l \<in> set ls. recommendationMatch l = None"
  shows "parse_actions ls = []"
  unfolding parse_actions_def Let_def scan_segment [OF assms]
  by (simp add: completed_action_def)

lemma parse_actions_segment:
  assumes "recommendationMatch r = Some g"
      and "\<forall>l \<in> set seg. recommendationMatch l = None"
  shows "parse_actions (pre @ r # seg) = parse_actions pre @ segment_record g seg"
proof -
  obtain acts cur where st: "foldl scan_line
      ([], \<lparr>cur_action = None, cur_savings = None, cur_difficulty = None\<rparr>) pre = (acts, cur)"
    by (cases "foldl scan_line
      ([], \<lparr>cur_action = None, cur_savings = None, cur_difficulty = None\<rparr>) pre") auto
  have step: "scan_line (acts, cur) r =
      (acts @ completed_action cur,
       \<lparr>cur_action = Some (trim g), cur_savings = None, cur_difficulty = None\<rparr>)"
    using assms(1) by (simp add: scan_line_def)
  have last_rec: "completed_action
      (\<lparr>cur_action = Some (trim g), cur_savings = None, cur_difficulty = None\<rparr>
        \<lparr>cur_savings :=
           (if segment_savings seg = [] then None else Some (last (segment_savings seg))),
         cur_difficulty :=
           (if segment_difficulties seg = [] then None
            else Some (last (segment_difficulties seg)))\<rparr>) = segment_record g seg"
  proof -
    have "d \<in> set (segment_difficulties seg) \<Longrightarrow> d \<noteq> []" for d
      by (auto simp: segment_difficulties_def List.map_filter_def
          dest: difficultyMatch_nonempty split: if_splits)
    then have "segment_difficulties seg \<noteq> [] \<Longrightarrow> last (segment_difficulties seg) \<noteq> []"
      using last_in_set by blast
    then show ?thesis
      by (auto simp: completed_action_def segment_record_def)
  qed
  show ?thesis
    unfolding parse_actions_def Let_def
    using last_rec by (simp add: st step scan_segment [OF assms(2)] split: if_splits)
qed

lemma js_gt_zero_valid: "js_gt x (Fin 0) \<Longrightarrow> \<not> js_falsy x \<and> \<not> js_le x (Fin 0)"
  by (cases x) (auto simp: js_gt_def js_falsy_def js_le_def js_eq_def)

lemma savings_recommendation_success:
  assumes "savingsGoal input = Some goal"
      and "sr_transactions input = Some (t # ts)"
      and "js_gt (monthlyIncome input) (Fin 0)"
      and "sr_spendingPatterns input = Some patterns"
      and "error response = None" and "data response = Some ai"
      and "choices ai = Some (Some content # cs)" and "content \<noteq> []"
  shows "api_calls (useGenerateSavingsRecommendation input response) = 1
         \<and> (\<exists>res. outcome (useGenerateSavingsRecommendation input response) = Inr res
              \<and> specificActions res =
                  (if parse_actions (content_lines content) \<noteq> []
                   then parse_actions (content_lines content)
                   else [\<lparr>action = ''Review and optimize spending across all categories'',
                          potentialSavings =
                            js_min (js_mul (js_mul (averageDaily patterns) (Fin 30))
                                      (Fin (1 / 10))) (Fin 200),
                          difficulty = ''medium''\<rparr>])
              \<and> recommendations res =
                  (if parse_actions (content_lines content) \<noteq> []
                   then map action (parse_actions (content_lines content))
                   else if filter (\<lambda>l. bulleted l \<and> \<not> marker_line l) (content_lines content)
                           \<noteq> []
                   then map (\<lambda>s. trim (strip_bullet s))
                          (filter (\<lambda>l. bulleted l \<and> \<not> marker_line l) (content_lines content))
                   else [content]))"
proof -
  have rc: "response_content ''Failed to generate savings recommendations'' response
      = Inr (ai, content)"
    using assms(5-8) by (simp add: response_content_def)
  show ?thesis
    unfolding useGenerateSavingsRecommendation_def Let_def
    using js_gt_zero_valid [OF assms(3)] assms(1,2,4)
    by (simp add: rc)
qed

text \<open>
  C6, as stated, fails for a reply that has no RECOMMENDATION marker but has a line
  with a bullet: the recommendation is the line with the bullet stripped, not the raw
  content.
\<close>

theorem recommendation_fallback_strips_bullet:
  "recommendationMatch ''- Cut coffee'' = None
   \<and> outcome (useGenerateSavingsRecommendation
        \<lparr>savingsGoal = Some \<lparr>goalName = ''Car'', targetAmount = Fin 10000,
                               currentAmount = Fin 3000\<rparr>,
         sr_transactions = Some [\<lparr>txn_amount = Fin 5, txn_category = ''Food'',
                                    txn_description = ''Coffee''\<rparr>],
         monthlyIncome = Fin 5000,
         sr_spendingPatterns = Some \<lparr>averageDaily = Fin 150\<rparr>\<rparr>
        \<lparr>error = None,
         data = Some \<lparr>choices = Some [Some ''- Cut coffee''], total_tokens = Some 12,
                      model = ''MaaS_4.1''\<rparr>\<rparr>) =
     Inr \<lparr>recommendations = [''Cut coffee''],
          projectedSavingsIncrease = Fin 0,
          estimatedTimeToGoal = \<lparr>months = Fin 14, description = ''14 months to reach goal''\<rparr>,
          specificActions =
            [\<lparr>action = ''Review and optimize spending across all categories'',
               potentialSavings = Fin 200, difficulty = ''medium''\<rparr>],
          sr_metadata = \<lparr>tokensUsed = 12, modelUsed = ''MaaS_4.1''\<rparr>\<rparr>"
proof -
  have rm: "recommendationMatch ''- Cut coffee'' = None"
    by code_simp
  have cl: "content_lines ''- Cut coffee'' = [''- Cut coffee'']"
    by code_simp
  have pa: "parse_actions [''- Cut coffee''] = []"
    by code_simp
  have bl: "bulleted ''- Cut coffee''" "\<not> marker_line ''- Cut coffee''"
    by code_simp+
  have st: "trim (strip_bullet ''- Cut coffee'') = ''Cut coffee''"
    by code_simp
  have ts: "number_toString (Fin 14) = ''14''"
    by code_simp
  show ?thesis
    unfolding useGenerateSavingsRecommendation_def Let_def
    by (simp add: rm cl pa bl st ts response_content_def response_metadata_def
        months_to_goal_def plural_def js_falsy_def js_min_def)
qed

text \<open>
  C6, amended. The scan yields no record for lines among which none matches
  RECOMMENDATION; a RECOMMENDATION line closes the records before it and opens a group
  of its own with the lines up to the next RECOMMENDATION line, which contributes a
  record exactly if all three fields were seen (\<open>segment_record\<close>). For valid input
  and a reply with content that is not empty the hook raises nothing; when records
  were found they are the specific actions and their actions the recommendations;
  when no line matches RECOMMENDATION the recommendations are the lines that have a
  hyphen, a bullet or a leading number and none of the three markers, stripped of the
  bullet or number, and the raw content as the sole entry only if there is no such
  line. A reply whose content is empty is an error.
\<close>

theorem savings_parser_groups_and_falls_back:
  "((\<forall>l \<in> set ls. recommendationMatch l = None) \<longrightarrow> parse_actions ls = [])
   \<and> (recommendationMatch r = Some g \<and> (\<forall>l \<in> set seg. recommendationMatch l = None) \<longrightarrow>
        parse_actions (pre @ r # seg) = parse_actions pre @ segment_record g seg)
   \<and> (savingsGoal input = Some goal \<and> sr_transactions input = Some (t # ts)
        \<and> js_gt (monthlyIncome input) (Fin 0) \<and> sr_spendingPatterns input = Some patterns
        \<and> error response = None \<and> data response = Some ai
        \<and> choices ai = Some (Some content # cs) \<and> content \<noteq> [] \<longrightarrow>
        (\<exists>res. outcome (useGenerateSavingsRecommendation input response) = Inr res
           \<and> (parse_actions (content_lines content) \<noteq> [] \<longrightarrow>
                specificActions res = parse_actions (content_lines content)
                \<and> recommendations res = map action (parse_actions (content_lines content)))
           \<and> ((\<forall>l \<in> set (content_lines content). recommendationMatch l = None) \<longrightarrow>
                recommendations res =
                  (if filter (\<lambda>l. bulleted l \<and> \<not> marker_line l) (content_lines content) \<noteq> []
                   then map (\<lambda>s. trim (strip_bullet s))
                          (filter (\<lambda>l. bulleted l \<and> \<not> marker_line l)
                             (content_lines content))
                   else [content]))))
   \<and> (savingsGoal input = Some goal \<and> sr_transactions input = Some (t # ts)
        \<and> js_gt (monthlyIncome input) (Fin 0) \<and> sr_spendingPatterns input = Some patterns
        \<and> error response = None \<and> data response = Some ai
        \<and> choices ai = Some (Some [] # cs) \<longrightarrow>
        useGenerateSavingsRecommendation input response =
          \<lparr>api_calls = 1, outcome = Inl ''Empty content returned from AI service''\<rparr>)"
proof (intro conjI impI)
  assume "\<forall>l \<in> set ls. recommendationMatch l = None"
  then show "parse_actions ls = []" by (rule parse_actions_no_recommendation)
next
  assume "recommendationMatch r = Some g \<and> (\<forall>l \<in> set seg. recommendationMatch l = None)"
  then show "parse_actions (pre @ r # seg) = parse_actions pre @ segment_record g seg"
    using parse_actions_segment by blast
next
  assume a: "savingsGoal input = Some goal \<and> sr_transactions input = Some (t # ts)
        \<and> js_gt (monthlyIncome input) (Fin 0) \<and> sr_spendingPatterns input = Some patterns
        \<and> error response = None \<and> data response = Some ai
        \<and> choices ai = Some (Some content # cs) \<and> content \<noteq> []"
  then obtain res where res:
    "outcome (useGenerateSavingsRecommendation input response) = Inr res"
    "specificActions res =
                  (if parse_actions (content_lines content) \<noteq> []
                   then parse_actions (content_lines content)
                   else [\<lparr>action = ''Review and optimize spending across all categories'',
                          potentialSavings =
                            js_min (js_mul (js_mul (averageDaily patterns) (Fin 30))
                                      (Fin (1 / 10))) (Fin 200),
                          difficulty = ''medium''\<rparr>])"
    "recommendations res =
                  (if parse_actions (content_lines content) \<noteq> []
                   then map action (parse_actions (content_lines content))
                   else if filter (\<lambda>l. bulleted l \<and> \<not> marker_line l) (content_lines content)
                           \<noteq> []
                   then map (\<lambda>s. trim (strip_bullet s))
                          (filter (\<lambda>l. bulleted l \<and> \<not> marker_line l) (content_lines content))
                   else [content])"
    using savings_recommendation_success [of input goal t ts patterns response ai content cs]
    by blast
  show "\<exists>res. outcome (useGenerateSavingsRecommendation input response) = Inr res
           \<and> (parse_actions (content_lines content) \<noteq> [] \<longrightarrow>
                specificActions res = parse_actions (content_lines content)
                \<and> recommendations res = map action (parse_actions (content_lines content)))
           \<and> ((\<forall>l \<in> set (content_lines content). recommendationMatch l = None) \<longrightarrow>
                recommendations res =
                  (if filter (\<lambda>l. bulleted l \<and> \<not> marker_line l) (content_lines content) \<noteq> []
                   then map (\<lambda>s. trim (strip_bullet s))
                          (filter (\<lambda>l. bulleted l \<and> \<not> marker_line l)
                             (content_lines content))
                   else [content]))"
    using res parse_actions_no_recommendation [of "content_lines content"]
    by (intro exI [of _ res]) simp
next
  assume "savingsGoal input = Some goal \<and> sr_transactions input = Some (t # ts)
        \<and> js_gt (monthlyIncome input) (Fin 0) \<and> sr_spendingPatterns input = Some patterns
        \<and> error response = None \<and> data response = Some ai
        \<and> choices ai = Some (Some [] # cs)"
  then show "useGenerateSavingsRecommendation input response =
          \<lparr>api_calls = 1, outcome = Inl ''Empty content returned from AI service''\<rparr>"
    using js_gt_zero_valid [of "monthlyIncome input"]
    by (simp add: useGenerateSavingsRecommendation_def response_content_def
        throw_after_call_def Let_def)
qed

theorem savings_parser_groups_and_falls_back_witness:
  "parse_actions [''Spend less.''] = []
   \<and> parse_actions
       [''RECOMMENDATION: Cook at home'', ''SAVINGS: $150/month'', ''DIFFICULTY: Easy'']
     = [\<lparr>action = ''Cook at home'', potentialSavings = Fin 150, difficulty = ''easy''\<rparr>]
   \<and> map_sum id recommendations (outcome (useGenerateSavingsRecommendation
        \<lparr>savingsGoal = Some \<lparr>goalName = ''Car'', targetAmount = Fin 10000,
                               currentAmount = Fin 3000\<rparr>,
         sr_transactions = Some [\<lparr>txn_amount = Fin 5, txn_category = ''Food'',
                                    txn_description = ''Coffee''\<rparr>],
         monthlyIncome = Fin 5000,
         sr_spendingPatterns = Some \<lparr>averageDaily = Fin 150\<rparr>\<rparr>
        \<lparr>error = None,
         data = Some \<lparr>choices = Some [Some ''Spend less.''], total_tokens = Some 12,
                      model = ''MaaS_4.1''\<rparr>\<rparr>))
     = Inr [''Spend less.'']"
proof -
  have h1: "\<forall>l \<in> set [''Spend less.'']. recommendationMatch l = None"
    by code_simp
  have h2: "recommendationMatch ''RECOMMENDATION: Cook at home'' = Some ''Cook at home''"
    by code_simp
  have h3: "\<forall>l \<in> set [''SAVINGS: $150/month'', ''DIFFICULTY: Easy''].
      recommendationMatch l = None"
    by code_simp
  have sr: "segment_record ''Cook at home'' [''SAVINGS: $150/month'', ''DIFFICULTY: Easy'']
      = [\<lparr>action = ''Cook at home'', potentialSavings = Fin 150, difficulty = ''easy''\<rparr>]"
    by code_simp
  have pn: "parse_actions [] = []"
    by code_simp
  have cl: "content_lines ''Spend less.'' = [''Spend less.'']"
    by code_simp
  have nb: "\<not> bulleted ''Spend less.''"
    by code_simp
  have gt: "js_gt (Fin 5000) (Fin 0)"
    by simp
  note T = savings_parser_groups_and_falls_back [where ls = "[''Spend less.'']"
      and r = "''RECOMMENDATION: Cook at home''" and g = "''Cook at home''"
      and seg = "[''SAVINGS: $150/month'', ''DIFFICULTY: Easy'']" and pre = "[]"
      and input = "\<lparr>savingsGoal = Some \<lparr>goalName = ''Car'', targetAmount = Fin 10000,
                               currentAmount = Fin 3000\<rparr>,
         sr_transactions = Some [\<lparr>txn_amount = Fin 5, txn_category = ''Food'',
                                    txn_description = ''Coffee''\<rparr>],
         monthlyIncome = Fin 5000,
         sr_spendingPatterns = Some \<lparr>averageDaily = Fin 150\<rparr>\<rparr>"
      and goal = "\<lparr>goalName = ''Car'', targetAmount = Fin 10000, currentAmount = Fin 3000\<rparr>"
      and t = "\<lparr>txn_amount = Fin 5, txn_category = ''Food'', txn_description = ''Coffee''\<rparr>"
      and ts = "[]" and patterns = "\<lparr>averageDaily = Fin 150\<rparr>"
      and response = "\<lparr>error = None,
         data = Some \<lparr>choices = Some [Some ''Spend less.''], total_tokens = Some 12,
                      model = ''MaaS_4.1''\<rparr>\<rparr>"
      and ai = "\<lparr>choices = Some [Some ''Spend less.''], total_tokens = Some 12,
                      model = ''MaaS_4.1''\<rparr>"
      and content = "''Spend less.''" and cs = "[]"]
  have a: "parse_actions [''Spend less.''] = []"
    using T h1 by blast
  have b: "parse_actions
       [''RECOMMENDATION: Cook at home'', ''SAVINGS: $150/month'', ''DIFFICULTY: Easy'']
     = [\<lparr>action = ''Cook at home'', potentialSavings = Fin 150, difficulty = ''easy''\<rparr>]"
    using T h2 h3 by (simp add: sr pn)
  have c: "map_sum id recommendations (outcome (useGenerateSavingsRecommendation
        \<lparr>savingsGoal = Some \<lparr>goalName = ''Car'', targetAmount = Fin 10000,
                               currentAmount = Fin 3000\<rparr>,
         sr_transactions = Some [\<lparr>txn_amount = Fin 5, txn_category = ''Food'',
                                    txn_description = ''Coffee''\<rparr>],
         monthlyIncome = Fin 5000,
         sr_spendingPatterns = Some \<lparr>averageDaily = Fin 150\<rparr>\<rparr>
        \<lparr>error = None,
         data = Some \<lparr>choices = Some [Some ''Spend less.''], total_tokens = Some 12,
                      model = ''MaaS_4.1''\<rparr>\<rparr>))
     = Inr [''Spend less.'']"
    using T [THEN conjunct2, THEN conjunct2] gt h1 by (auto simp: cl nb)
  show ?thesis using a b c by simp
qed

subsection \<open>Time windows\<close>

lemma sub_days_numeral [simp]: "sub_days (numeral k) d = sub_days (pred_numeral k) (prev_day d)"
  by (simp add: numeral_eq_Suc)

lemma add_days_numeral [simp]: "add_days (numeral k) d = add_days (pred_numeral k) (next_day d)"
  by (simp add: numeral_eq_Suc)

text \<open>
  Day numbers. A year is followed by the next after 365 or 366 days and a month by the
  next after its days, so the day before a date of the calendar has the preceding day
  number, and the start of its week is the Sunday at most six days back.
\<close>

lemma div_step:
  fixes x k :: int
  assumes "1 < k"
  shows "(x + 1) div k = x div k + (if (x + 1) mod k = 0 then 1 else 0)"
proof -
  have r: "0 \<le> x mod k" "x mod k < k" using assms by simp_all
  have m: "(x + 1) mod k = (x mod k + 1) mod k" by (simp add: mod_add_left_eq)
  have d: "(x + 1) div k = x div k + (x mod k + 1) div k"
    using div_add1_eq [of x 1 k] assms by simp
  show ?thesis
  proof (cases "x mod k + 1 = k")
    case True
    then show ?thesis unfolding d m using assms by simp
  next
    case False
    then have lt: "x mod k + 1 < k" using r by simp
    have "(x mod k + 1) div k = 0" "(x mod k + 1) mod k = x mod k + 1"
      using lt r by simp_all
    then show ?thesis unfolding d m using r by simp
  qed
qed

lemma DayFromYear_Suc:
  "DayFromYear (y + 1) = DayFromYear y + 365 + (if leap_year y then 1 else 0)"
proof -
  have a: "(y - 1968) div 4 = (y - 1969) div 4 + (if y mod 4 = 0 then 1 else 0)"
    using div_step [of 4 "y - 1969"] mod_mult_self1 [of y "- 492" 4] by simp
  have b: "(y - 1900) div 100 = (y - 1901) div 100 + (if y mod 100 = 0 then 1 else 0)"
    using div_step [of 100 "y - 1901"] mod_mult_self1 [of y "- 19" 100] by simp
  have c: "(y - 1600) div 400 = (y - 1601) div 400 + (if y mod 400 = 0 then 1 else 0)"
    using div_step [of 400 "y - 1601"] mod_mult_self1 [of y "- 4" 400] by simp
  have d: "y mod 400 = 0 \<Longrightarrow> y mod 100 = 0" "y mod 100 = 0 \<Longrightarrow> y mod 4 = 0"
    by (auto simp: mod_eq_0_iff_dvd elim: dvd_trans [rotated])
  have e: "y + 1 - 1969 = y - 1968" "y + 1 - 1901 = y - 1900" "y + 1 - 1601 = y - 1600"
    by simp_all
  show ?thesis
    unfolding DayFromYear_def leap_year_def e a b c using d by auto
qed

lemma month_cases:
  assumes "m < 12"
  shows "m = 0 \<or> m = 1 \<or> m = 2 \<or> m = 3 \<or> m = 4 \<or> m = 5 \<or> m = 6 \<or> m = 7 \<or> m = 8
         \<or> m = 9 \<or> m = 10 \<or> m = (11::nat)"
  using assms by arith

lemma daysInMonth_bounds: "28 \<le> daysInMonth y m" "daysInMonth y m \<le> 31"
  by (simp_all add: daysInMonth_def)

lemma days_before_month_Suc:
  assumes "m < 11"
  shows "days_before_month y (Suc m) = days_before_month y m + int (daysInMonth y m)"
proof -
  have "m < 12" using assms by simp
  from month_cases [OF this] show ?thesis
    using assms
    apply (elim disjE)
    apply (simp_all add: days_before_month_def daysInMonth_def)
    done
qed

lemma days_before_month_last:
  "days_before_month y 11 + 31 = 365 + (if leap_year y then 1 else 0)"
  by (simp add: days_before_month_def)

lemma day_number_prev_day:
  assumes "month d < 12" and "1 \<le> day d"
  shows "day_number (prev_day d) = day_number d - 1"
proof (cases "1 < day d")
  case True
  then show ?thesis by (simp add: prev_day_def day_number_def)
next
  case False
  then have d1: "day d = 1" using assms(2) by simp
  show ?thesis
  proof (cases "0 < month d")
    case True
    then obtain k where k: "month d = Suc k" by (cases "month d") auto
    then have "k < 11" using assms(1) by simp
    from days_before_month_Suc [OF this, of "year d"] show ?thesis
      using d1 k by (simp add: prev_day_def day_number_def)
  next
    case False
    then have m0: "month d = 0" by simp
    have "DayFromYear (year d) = DayFromYear (year d - 1) + 365
        + (if leap_year (year d - 1) then 1 else 0)"
      using DayFromYear_Suc [of "year d - 1"] by simp
    then show ?thesis
      using d1 m0 days_before_month_last [of "year d - 1"]
      by (simp add: prev_day_def day_number_def days_before_month_def)
  qed
qed

lemma valid_prev_day: "valid_date d \<Longrightarrow> valid_date (prev_day d)"
  using daysInMonth_bounds(1) [of "year d" "month d - 1"]
  by (auto simp: valid_date_def prev_day_def daysInMonth_def)

lemma ms_prev_day: "ms (prev_day d) = ms d"
  by (simp add: prev_day_def)

lemma time_value_prev_day:
  "valid_date d \<Longrightarrow> time_value (prev_day d) = time_value d - 86400000"
  by (simp add: time_value_def day_number_prev_day valid_date_def ms_prev_day)

lemma sub_days_props:
  "valid_date d \<Longrightarrow>
     valid_date (sub_days n d) \<and> day_number (sub_days n d) = day_number d - int n
     \<and> ms (sub_days n d) = ms d"
proof (induction n arbitrary: d)
  case 0
  then show ?case by simp
next
  case (Suc n)
  from Suc.IH [OF valid_prev_day [OF Suc.prems]] Suc.prems show ?case
    by (simp add: day_number_prev_day valid_date_def ms_prev_day)
qed

lemma day_number_ms_update [simp]: "day_number (d\<lparr>ms := x\<rparr>) = day_number d"
  by (simp add: day_number_def)

lemma startOfWeek_props:
  assumes "valid_date d"
  shows "valid_date (startOfWeek d)"
    and "day_number (startOfWeek d) = day_number d - int (getDay d)"
    and "ms (startOfWeek d) = 0"
    and "getDay (startOfWeek d) = 0"
proof -
  note p = sub_days_props [OF assms, of "getDay d"]
  show "valid_date (startOfWeek d)"
    using p by (simp add: startOfWeek_def valid_date_def)
  show dn: "day_number (startOfWeek d) = day_number d - int (getDay d)"
    using p by (simp add: startOfWeek_def)
  show "ms (startOfWeek d) = 0" by (simp add: startOfWeek_def)
  have "(day_number d - (day_number d + 4) mod 7 + 4) mod 7 = 0" by presburger
  then show "getDay (startOfWeek d) = 0"
    unfolding getDay_def [of "startOfWeek d"] dn by (simp add: getDay_def)
qed

text \<open>
  On dates of the calendar the comparison of time values is the lexicographic
  comparison of year, month, day and milliseconds.
\<close>

lemma DayFromYear_mono_aux: "DayFromYear (y + 1) \<le> DayFromYear (y + 1 + int k)"
proof (induction k)
  case 0
  then show ?case by simp
next
  case (Suc k)
  have "DayFromYear (y + 1 + int (Suc k)) = DayFromYear ((y + 1 + int k) + 1)"
    by (simp add: algebra_simps)
  also have "\<dots> \<ge> DayFromYear (y + 1 + int k)"
    unfolding DayFromYear_Suc by simp
  finally show ?case using Suc.IH by simp
qed

lemma DayFromYear_less:
  assumes "y < y'"
  shows "DayFromYear y + 365 + (if leap_year y then 1 else 0) \<le> DayFromYear y'"
proof -
  have "y' = y + 1 + int (nat (y' - y - 1))" using assms by simp
  then show ?thesis
    using DayFromYear_mono_aux [of y "nat (y' - y - 1)"] DayFromYear_Suc [of y] by simp
qed

lemma days_before_month_mono:
  "m \<le> m' \<Longrightarrow> m' < 12 \<Longrightarrow> days_before_month y m \<le> days_before_month y m'"
proof (induction m')
  case 0
  then show ?case by simp
next
  case (Suc m')
  show ?case
  proof (cases "m = Suc m'")
    case True
    then show ?thesis by simp
  next
    case False
    then have "m \<le> m'" "m' < 12" "m' < 11" using Suc.prems by simp_all
    with Suc.IH days_before_month_Suc [of m' y] show ?thesis by simp
  qed
qed

lemma days_before_month_less:
  assumes "m < m'" and "m' < 12"
  shows "days_before_month y m + int (daysInMonth y m) \<le> days_before_month y m'"
proof -
  have "m < 11" using assms by simp
  from days_before_month_Suc [OF this, of y]
    days_before_month_mono [of "Suc m" m' y] assms
  show ?thesis by simp
qed

lemma days_before_month_year:
  assumes "m < 12"
  shows "0 \<le> days_before_month y m"
    and "days_before_month y m + int (daysInMonth y m) \<le> 365 + (if leap_year y then 1 else 0)"
proof -
  from days_before_month_mono [of 0 m y] assms show "0 \<le> days_before_month y m"
    by (simp add: days_before_month_def)
  show "days_before_month y m + int (daysInMonth y m)
      \<le> 365 + (if leap_year y then 1 else 0)"
  proof (cases "m = 11")
    case True
    then show ?thesis using days_before_month_last [of y] by (simp add: daysInMonth_def)
  next
    case False
    then have "m < 11" using assms by simp
    from days_before_month_Suc [OF this, of y] days_before_month_mono [of "Suc m" 11 y]
      days_before_month_last [of y] \<open>m < 11\<close>
    show ?thesis by simp
  qed
qed

lemma day_number_less:
  assumes "valid_date a" and "valid_date b"
      and "year a < year b
           \<or> (year a = year b
               \<and> (month a < month b \<or> (month a = month b \<and> day a < day b)))"
  shows "day_number a < day_number b"
proof -
  have va: "month a < 12" "1 \<le> day a" "day a \<le> daysInMonth (year a) (month a)"
    and vb: "month b < 12" "1 \<le> day b" "day b \<le> daysInMonth (year b) (month b)"
    using assms(1,2) by (simp_all add: valid_date_def)
  note ya = days_before_month_year [OF va(1), of "year a"]
  note yb = days_before_month_year [OF vb(1), of "year b"]
  consider "year a < year b" | "year a = year b" "month a < month b"
    | "year a = year b" "month a = month b" "day a < day b"
    using assms(3) by blast
  then show ?thesis
  proof cases
    case 1
    from DayFromYear_less [OF 1] ya yb va vb show ?thesis
      unfolding day_number_def by linarith
  next
    case 2
    from days_before_month_less [OF 2(2) vb(1), of "year a"] va vb 2(1) show ?thesis
      unfolding day_number_def by simp
  next
    case 3
    then show ?thesis unfolding day_number_def by simp
  qed
qed

lemma time_value_less:
  assumes "day_number a < day_number b" and "ms a \<le> end_of_day"
  shows "time_value a < time_value b"
proof -
  have "day_number a + 1 \<le> day_number b" using assms(1) by simp
  then have "(day_number a + 1) * 86400000 \<le> day_number b * 86400000" by simp
  then show ?thesis
    using assms(2) unfolding time_value_def end_of_day_def by (simp add: algebra_simps)
qed

lemma date_le_civil:
  assumes "valid_date a" and "valid_date b"
  shows "date_le a b =
     (year a < year b
      \<or> (year a = year b
          \<and> (month a < month b
              \<or> (month a = month b
                  \<and> (day a < day b \<or> (day a = day b \<and> ms a \<le> ms b))))))"
proof -
  have ma: "ms a \<le> end_of_day" and mb: "ms b \<le> end_of_day"
    using assms by (simp_all add: valid_date_def)
  consider (lt) "year a < year b
           \<or> (year a = year b
               \<and> (month a < month b \<or> (month a = month b \<and> day a < day b)))"
    | (gt) "year b < year a
           \<or> (year b = year a
               \<and> (month b < month a \<or> (month b = month a \<and> day b < day a)))"
    | (eq) "year a = year b" "month a = month b" "day a = day b"
    by linarith
  then show ?thesis
  proof cases
    case lt
    from time_value_less [OF day_number_less [OF assms lt] ma] lt show ?thesis
      unfolding date_le_def by auto
  next
    case gt
    from time_value_less [OF day_number_less [OF assms(2,1) gt] mb] gt show ?thesis
      unfolding date_le_def by auto
  next
    case eq
    then show ?thesis unfolding date_le_def time_value_def day_number_def by simp
  qed
qed

text \<open>The previous windows of the three granularities.\<close>

lemma subMonths_one:
  assumes "month now < 12"
  shows "year (subMonths now 1) = (if month now = 0 then year now - 1 else year now)"
    and "month (subMonths now 1) = (if month now = 0 then 11 else month now - 1)"
proof -
  have d: "(year now * 12 + int (month now) - 1) div 12
      = (if month now = 0 then year now - 1 else year now)"
    using assms by (auto simp: div_pos_pos_trivial)
  have m: "(year now * 12 + int (month now) - 1) mod 12
      = (if month now = 0 then 11 else int (month now) - 1)"
  proof (cases "month now = 0")
    case True
    have "(year now * 12 - 1) mod 12 = 11" by presburger
    with True show ?thesis by simp
  next
    case False
    define k where "k = int (month now) - 1"
    have k: "0 \<le> k" "k < 12" using False assms by (auto simp: k_def)
    have "(year now * 12 + k) mod 12 = k" using k by simp
    then show ?thesis using False by (simp add: k_def algebra_simps)
  qed
  show "year (subMonths now 1) = (if month now = 0 then year now - 1 else year now)"
    using d by (simp add: subMonths_def Let_def)
  show "month (subMonths now 1) = (if month now = 0 then 11 else month now - 1)"
    using m by (auto simp: subMonths_def Let_def)
qed

lemma previous_month_bounds:
  assumes "month now < 12"
  shows "previousPeriod monthly dr now =
     (let py = (if month now = 0 then year now - 1 else year now);
          pm = (if month now = 0 then 11 else month now - 1)
      in \<lparr>range_start = \<lparr>year = py, month = pm, day = 1, ms = 0\<rparr>,
          range_end = \<lparr>year = py, month = pm, day = daysInMonth py pm, ms = end_of_day\<rparr>\<rparr>)"
proof -
  define p where "p = subMonths now 1"
  have s: "startOfMonth p = \<lparr>year = year p, month = month p, day = 1, ms = 0\<rparr>"
    by (cases p) (simp add: startOfMonth_def)
  have e: "endOfMonth p = \<lparr>year = year p, month = month p,
      day = daysInMonth (year p) (month p), ms = end_of_day\<rparr>"
    by (cases p) (simp add: endOfMonth_def)
  have "previousPeriod monthly dr now = \<lparr>range_start = startOfMonth p, range_end = endOfMonth p\<rparr>"
    by (simp add: previousPeriod_def Let_def p_def)
  then show ?thesis
    unfolding s e Let_def using subMonths_one [OF assms] by (simp add: p_def)
qed

lemma month_window_membership:
  assumes "pm < 12" and "valid_date t"
  shows "(date_le \<lparr>year = py, month = pm, day = 1, ms = 0\<rparr> t
          \<and> date_le t \<lparr>year = py, month = pm, day = daysInMonth py pm, ms = end_of_day\<rparr>)
         = (year t = py \<and> month t = pm)"
proof -
  have vb: "valid_date \<lparr>year = py, month = pm, day = 1, ms = 0\<rparr>"
    using assms(1) daysInMonth_bounds(1) [of py pm] by (simp add: valid_date_def)
  have ve: "valid_date \<lparr>year = py, month = pm, day = daysInMonth py pm, ms = end_of_day\<rparr>"
    using assms(1) daysInMonth_bounds(1) [of py pm] by (simp add: valid_date_def)
  have t: "1 \<le> day t" "day t \<le> daysInMonth (year t) (month t)" "ms t \<le> end_of_day"
    using assms(2) by (simp_all add: valid_date_def)
  have a: "date_le \<lparr>year = py, month = pm, day = 1, ms = 0\<rparr> t
      = (py < year t \<or> (py = year t \<and> pm \<le> month t))"
    unfolding date_le_civil [OF vb assms(2)] using t(1)
    by auto
  have b: "date_le t \<lparr>year = py, month = pm, day = daysInMonth py pm, ms = end_of_day\<rparr>
      = (year t < py \<or> (year t = py \<and> month t \<le> pm))"
  proof (cases "year t = py \<and> month t = pm")
    case True
    then show ?thesis
      unfolding date_le_civil [OF assms(2) ve] using t(2,3)
      by (simp add: le_less)
  next
    case False
    then show ?thesis
      unfolding date_le_civil [OF assms(2) ve] by (simp add: le_less) blast
  qed
  show ?thesis unfolding a b by auto
qed

lemma previous_end:
  assumes "valid_date (range_start dr)" and "f = weekly \<or> f = quarterly"
  shows "valid_date (range_end (previousPeriod f dr now))"
    and "time_value (range_end (previousPeriod f dr now))
           = time_value (range_start dr) - 86400000"
    and "day_number (range_end (previousPeriod f dr now)) = day_number (range_start dr) - 1"
    and "ms (range_end (previousPeriod f dr now)) = ms (range_start dr)"
  using assms(2) valid_prev_day [OF assms(1)] time_value_prev_day [OF assms(1)]
    day_number_prev_day [of "range_start dr"] assms(1)
  by (auto simp: previousPeriod_def Let_def ms_prev_day valid_date_def)

lemma previous_week_start:
  assumes "valid_date (range_start dr)"
  shows "getDay (range_start (previousPeriod weekly dr now)) = 0"
    and "ms (range_start (previousPeriod weekly dr now)) = 0"
    and "valid_date (range_start (previousPeriod weekly dr now))"
    and "day_number (range_start (previousPeriod weekly dr now))
           = day_number (range_start dr) - 1
             - int (getDay (prev_day (range_start dr)))"
  using startOfWeek_props [OF valid_prev_day [OF assms]]
    day_number_prev_day [of "range_start dr"] assms
  by (simp_all add: previousPeriod_def Let_def valid_date_def)

lemma getDay_less: "getDay d < 7"
  by (simp add: getDay_def)

lemma previous_week_of_current:
  assumes "valid_date now0"
  shows "getDay (range_start (dateRange weekly now0)) = 0"
    and "ms (range_start (dateRange weekly now0)) = 0"
    and "valid_date (range_start (dateRange weekly now0))"
    and "time_value (range_start (previousPeriod weekly (dateRange weekly now0) now))
           = time_value (range_start (dateRange weekly now0)) - 7 * 86400000"
proof -
  define S where "S = range_start (dateRange weekly now0)"
  have S: "S = startOfWeek now0" by (simp add: S_def dateRange_def)
  note w = startOfWeek_props [OF assms, folded S]
  show "getDay (range_start (dateRange weekly now0)) = 0"
    "ms (range_start (dateRange weekly now0)) = 0"
    "valid_date (range_start (dateRange weekly now0))"
    using w by (simp_all add: S_def)
  have v: "valid_date (range_start (dateRange weekly now0))" using w(1) by (simp add: S_def)
  have "(day_number S + 4) mod 7 = 0"
    using w(4) by (simp add: getDay_def)
  then have "(day_number S - 1 + 4) mod 7 = 6" by presburger
  moreover have "day_number (prev_day S) = day_number S - 1"
    using day_number_prev_day [of S] w(1) by (simp add: valid_date_def)
  ultimately have g: "getDay (prev_day S) = 6" by (simp add: getDay_def)
  from previous_week_start [OF v, of now] g
  show "time_value (range_start (previousPeriod weekly (dateRange weekly now0) now))
           = time_value (range_start (dateRange weekly now0)) - 7 * 86400000"
    using w(3) by (simp add: time_value_def S_def [symmetric])
qed

lemma previous_quarter_of_current:
  assumes "month now0 < 12"
  shows "dateRange quarterly now0 =
           \<lparr>range_start = \<lparr>year = year now0, month = 3 * (month now0 div 3), day = 1, ms = 0\<rparr>,
            range_end = \<lparr>year = year now0, month = 3 * (month now0 div 3) + 2,
                         day = daysInMonth (year now0) (3 * (month now0 div 3) + 2),
                         ms = end_of_day\<rparr>\<rparr>"
    and "previousPeriod quarterly (dateRange quarterly now0) now =
     (let qy = (if month now0 < 3 then year now0 - 1 else year now0);
          qm = (if month now0 < 3 then 9 else 3 * (month now0 div 3) - 3)
      in \<lparr>range_start = \<lparr>year = qy, month = qm, day = 1, ms = 0\<rparr>,
          range_end = \<lparr>year = qy, month = qm + 2, day = daysInMonth qy (qm + 2), ms = 0\<rparr>\<rparr>)"
proof -
  have q: "m - m mod 3 = 3 * (m div 3)" for m :: nat
    using mult_div_mod_eq [of 3 m] by linarith
  show c: "dateRange quarterly now0 =
           \<lparr>range_start = \<lparr>year = year now0, month = 3 * (month now0 div 3), day = 1, ms = 0\<rparr>,
            range_end = \<lparr>year = year now0, month = 3 * (month now0 div 3) + 2,
                         day = daysInMonth (year now0) (3 * (month now0 div 3) + 2),
                         ms = end_of_day\<rparr>\<rparr>"
    by (cases now0) (simp add: dateRange_def startOfQuarter_def endOfQuarter_def Let_def q)
  from month_cases [OF assms]
  show "previousPeriod quarterly (dateRange quarterly now0) now =
     (let qy = (if month now0 < 3 then year now0 - 1 else year now0);
          qm = (if month now0 < 3 then 9 else 3 * (month now0 div 3) - 3)
      in \<lparr>range_start = \<lparr>year = qy, month = qm, day = 1, ms = 0\<rparr>,
          range_end = \<lparr>year = qy, month = qm + 2, day = daysInMonth qy (qm + 2), ms = 0\<rparr>\<rparr>)"
    unfolding c
    apply (elim disjE)
    apply (simp_all add: previousPeriod_def Let_def startOfQuarter_def prev_day_def
        daysInMonth_def)
    done
qed

lemma window_selection:
  "set (filter (in_range parseISO w) txs) =
     {tx \<in> set txs. \<exists>d. parseISO (transaction_time tx) = Some d
        \<and> time_value (range_start w) \<le> time_value d
        \<and> time_value d \<le> time_value (range_end w)}"
  by (auto simp: in_range_def date_le_def split: option.splits)

text \<open>The current week: seven days from its start.\<close>

lemma day_number_next_day:
  assumes "valid_date d"
  shows "day_number (next_day d) = day_number d + 1"
proof (cases "day d < daysInMonth (year d) (month d)")
  case True
  then show ?thesis by (simp add: next_day_def day_number_def)
next
  case False
  then have dl: "day d = daysInMonth (year d) (month d)"
    using assms by (simp add: valid_date_def)
  show ?thesis
  proof (cases "month d < 11")
    case True
    from days_before_month_Suc [OF this, of "year d"] show ?thesis
      using dl True by (simp add: next_day_def day_number_def)
  next
    case False
    then have m: "month d = 11" using assms by (simp add: valid_date_def)
    then have "day d = 31" using dl by (simp add: daysInMonth_def)
    then show ?thesis
      using m DayFromYear_Suc [of "year d"] days_before_month_last [of "year d"]
      by (simp add: next_day_def day_number_def days_before_month_def)
  qed
qed

lemma valid_next_day: "valid_date d \<Longrightarrow> valid_date (next_day d)"
  using daysInMonth_bounds(1) [of "year d" "month d + 1"]
    daysInMonth_bounds(1) [of "year d + 1" 0]
  by (auto simp: valid_date_def next_day_def)

lemma add_days_props:
  "valid_date d \<Longrightarrow>
     valid_date (add_days n d) \<and> day_number (add_days n d) = day_number d + int n"
proof (induction n arbitrary: d)
  case 0
  then show ?case by simp
next
  case (Suc n)
  from Suc.IH [OF valid_next_day [OF Suc.prems]] Suc.prems show ?case
    by (simp add: day_number_next_day)
qed

lemma current_week:
  assumes "valid_date now0"
  shows "time_value (range_end (dateRange weekly now0))
           = time_value (range_start (dateRange weekly now0)) + 7 * 86400000 - 1"
    and "date_le (range_start (dateRange weekly now0)) now0"
    and "date_le now0 (range_end (dateRange weekly now0))"
proof -
  have g: "getDay now0 \<le> 6" using getDay_less [of now0] by simp
  have s: "day_number (range_start (dateRange weekly now0))
      = day_number now0 - int (getDay now0)"
    "ms (range_start (dateRange weekly now0)) = 0"
    using startOfWeek_props(2,3) [OF assms] by (simp_all add: dateRange_def)
  have e: "day_number (range_end (dateRange weekly now0))
      = day_number now0 + int (6 - getDay now0)"
    "ms (range_end (dateRange weekly now0)) = end_of_day"
    using add_days_props [OF assms, of "6 - getDay now0"]
    by (simp_all add: dateRange_def endOfWeek_def)
  show "time_value (range_end (dateRange weekly now0))
           = time_value (range_start (dateRange weekly now0)) + 7 * 86400000 - 1"
    unfolding time_value_def s e using g by (simp add: end_of_day_def algebra_simps)
  have m: "ms now0 \<le> end_of_day" using assms by (simp add: valid_date_def)
  have "day_number now0 - int (getDay now0) \<le> day_number now0" by simp
  then have "(day_number now0 - int (getDay now0)) * 86400000 \<le> day_number now0 * 86400000"
    by simp
  then show "date_le (range_start (dateRange weekly now0)) now0"
    unfolding date_le_def time_value_def s by simp
  have "day_number now0 \<le> day_number now0 + int (6 - getDay now0)" by simp
  then have "day_number now0 * 86400000
      \<le> (day_number now0 + int (6 - getDay now0)) * 86400000"
    by simp
  then show "date_le now0 (range_end (dateRange weekly now0))"
    unfolding date_le_def time_value_def e using m by simp
qed

text \<open>
  C7. The previous window depends on the granularity in two different ways. For
  monthly it is derived from \<open>now\<close> alone, whatever the current window is: it runs
  from the first instant to the last millisecond of the calendar month before the
  month of \<open>now\<close>, and contains exactly the dates of that month. For weekly and
  quarterly it is derived from the current window alone, whatever the clock reads
  when it is computed: its end is the start of the current window moved back by one
  day, and its start is derived again from that end. For the current week of a clock
  reading \<open>now0\<close>, which starts on a Sunday at midnight, the previous window starts on
  the Sunday seven days earlier and ends at midnight of the Saturday, six days later.
  For the current quarter of \<open>now0\<close> it starts with the first instant of the quarter
  before and ends at midnight of the last day of that quarter. Transactions are
  selected for either window by comparing the time value of the parsed time with both
  bounds, inclusively, a time that does not parse being dropped; for weekly and
  quarterly no transaction is selected for both windows.
\<close>

theorem previous_window_by_granularity:
  assumes "valid_date now" and "valid_date now0" and "valid_date t"
  shows
   "(let P = previousPeriod monthly dr now;
         py = (if month now = 0 then year now - 1 else year now);
         pm = (if month now = 0 then 11 else month now - 1)
     in range_start P = \<lparr>year = py, month = pm, day = 1, ms = 0\<rparr>
        \<and> range_end P = \<lparr>year = py, month = pm, day = daysInMonth py pm, ms = end_of_day\<rparr>
        \<and> (date_le (range_start P) t \<and> date_le t (range_end P))
            = (year t = py \<and> month t = pm)
        \<and> previousPeriod monthly dr' now = P)
    \<and> (let S = range_start (dateRange weekly now0);
            P = previousPeriod weekly (dateRange weekly now0) now
        in getDay S = 0 \<and> ms S = 0
           \<and> time_value (range_end (dateRange weekly now0))
               = time_value S + 7 * 86400000 - 1
           \<and> getDay (range_start P) = 0
           \<and> time_value (range_start P) = time_value S - 7 * 86400000
           \<and> time_value (range_end P) = time_value S - 86400000)
    \<and> (let S = range_start (dateRange quarterly now0);
            P = previousPeriod quarterly (dateRange quarterly now0) now;
            qy = (if month now0 < 3 then year now0 - 1 else year now0);
            qm = (if month now0 < 3 then 9 else 3 * (month now0 div 3) - 3)
        in dateRange quarterly now0 =
             \<lparr>range_start =
                \<lparr>year = year now0, month = 3 * (month now0 div 3), day = 1, ms = 0\<rparr>,
              range_end =
                \<lparr>year = year now0, month = 3 * (month now0 div 3) + 2,
                   day = daysInMonth (year now0) (3 * (month now0 div 3) + 2),
                   ms = end_of_day\<rparr>\<rparr>
           \<and> range_start P = \<lparr>year = qy, month = qm, day = 1, ms = 0\<rparr>
           \<and> range_end P
               = \<lparr>year = qy, month = qm + 2, day = daysInMonth qy (qm + 2), ms = 0\<rparr>
           \<and> time_value (range_end P) = time_value S - 86400000)
    \<and> (\<forall>f \<in> {weekly, quarterly}. valid_date (range_start dr) \<longrightarrow>
          time_value (range_end (previousPeriod f dr now))
            = time_value (range_start dr) - 86400000
          \<and> previousPeriod f dr now' = previousPeriod f dr now
          \<and> set (filteredTransactions parseISO dr txs)
              \<inter> set (previousPeriodTransactions parseISO f dr now txs) = {})
    \<and> filteredTransactions parseISO dr txs =
          filter (\<lambda>tx. \<exists>d. parseISO (transaction_time tx) = Some d
                    \<and> time_value (range_start dr) \<le> time_value d
                    \<and> time_value d \<le> time_value (range_end dr)) txs
    \<and> previousPeriodTransactions parseISO g dr now txs =
          filter (\<lambda>tx. \<exists>d. parseISO (transaction_time tx) = Some d
                    \<and> time_value (range_start (previousPeriod g dr now)) \<le> time_value d
                    \<and> time_value d \<le> time_value (range_end (previousPeriod g dr now))) txs"
proof -
  have m12: "month now < 12" and m012: "month now0 < 12"
    using assms(1,2) by (simp_all add: valid_date_def)
  have pm12: "(if month now = 0 then 11 else month now - 1) < 12"
    using m12 by auto
  have A: "(let P = previousPeriod monthly dr now;
         py = (if month now = 0 then year now - 1 else year now);
         pm = (if month now = 0 then 11 else month now - 1)
     in range_start P = \<lparr>year = py, month = pm, day = 1, ms = 0\<rparr>
        \<and> range_end P = \<lparr>year = py, month = pm, day = daysInMonth py pm, ms = end_of_day\<rparr>
        \<and> (date_le (range_start P) t \<and> date_le t (range_end P))
            = (year t = py \<and> month t = pm)
        \<and> previousPeriod monthly dr' now = P)"
    unfolding previous_month_bounds [OF m12] Let_def
    using month_window_membership [OF pm12 assms(3)] by simp
  have B: "(let S = range_start (dateRange weekly now0);
            P = previousPeriod weekly (dateRange weekly now0) now
        in getDay S = 0 \<and> ms S = 0
           \<and> time_value (range_end (dateRange weekly now0))
               = time_value S + 7 * 86400000 - 1
           \<and> getDay (range_start P) = 0
           \<and> time_value (range_start P) = time_value S - 7 * 86400000
           \<and> time_value (range_end P) = time_value S - 86400000)"
    unfolding Let_def
    using previous_week_of_current(1,2) [OF assms(2)] current_week(1) [OF assms(2)]
      previous_week_of_current(4) [OF assms(2), where now = now]
      previous_week_start(1) [OF previous_week_of_current(3) [OF assms(2)], where now = now]
      previous_end(2) [OF previous_week_of_current(3) [OF assms(2)],
        where f = weekly and now = now]
    by simp
  have vq: "valid_date (range_start (dateRange quarterly now0))"
    unfolding previous_quarter_of_current(1) [OF m012]
    using m012 daysInMonth_bounds(1) [of "year now0" "3 * (month now0 div 3)"]
    by (simp add: valid_date_def)
  have C: "(let S = range_start (dateRange quarterly now0);
            P = previousPeriod quarterly (dateRange quarterly now0) now;
            qy = (if month now0 < 3 then year now0 - 1 else year now0);
            qm = (if month now0 < 3 then 9 else 3 * (month now0 div 3) - 3)
        in dateRange quarterly now0 =
             \<lparr>range_start =
                \<lparr>year = year now0, month = 3 * (month now0 div 3), day = 1, ms = 0\<rparr>,
              range_end =
                \<lparr>year = year now0, month = 3 * (month now0 div 3) + 2,
                   day = daysInMonth (year now0) (3 * (month now0 div 3) + 2),
                   ms = end_of_day\<rparr>\<rparr>
           \<and> range_start P = \<lparr>year = qy, month = qm, day = 1, ms = 0\<rparr>
           \<and> range_end P
               = \<lparr>year = qy, month = qm + 2, day = daysInMonth qy (qm + 2), ms = 0\<rparr>
           \<and> time_value (range_end P) = time_value S - 86400000)"
    using previous_end(2) [OF vq, where f = quarterly and now = now]
      previous_quarter_of_current(1) [OF m012]
    unfolding previous_quarter_of_current(2) [OF m012] Let_def
    by simp
  have D: "\<forall>f \<in> {weekly, quarterly}. valid_date (range_start dr) \<longrightarrow>
          time_value (range_end (previousPeriod f dr now))
            = time_value (range_start dr) - 86400000
          \<and> previousPeriod f dr now' = previousPeriod f dr now
          \<and> set (filteredTransactions parseISO dr txs)
              \<inter> set (previousPeriodTransactions parseISO f dr now txs) = {}"
  proof (intro ballI impI)
    fix f assume f: "f \<in> {weekly, quarterly}" and v: "valid_date (range_start dr)"
    then have f': "f = weekly \<or> f = quarterly" by simp
    have e: "time_value (range_end (previousPeriod f dr now))
            = time_value (range_start dr) - 86400000"
      using previous_end(2) [OF v f'] .
    have i: "previousPeriod f dr now' = previousPeriod f dr now"
      using f' by (auto simp: previousPeriod_def)
    have "set (filteredTransactions parseISO dr txs)
              \<inter> set (previousPeriodTransactions parseISO f dr now txs) = {}"
      unfolding filteredTransactions_def previousPeriodTransactions_def window_selection e
      by auto
    with e i show "time_value (range_end (previousPeriod f dr now))
            = time_value (range_start dr) - 86400000
          \<and> previousPeriod f dr now' = previousPeriod f dr now
          \<and> set (filteredTransactions parseISO dr txs)
              \<inter> set (previousPeriodTransactions parseISO f dr now txs) = {}"
      by simp
  qed
  have sel: "in_range parseISO w = (\<lambda>tx. \<exists>d. parseISO (transaction_time tx) = Some d
                    \<and> time_value (range_start w) \<le> time_value d
                    \<and> time_value d \<le> time_value (range_end w))" for w
    by (auto simp: in_range_def date_le_def fun_eq_iff split: option.splits)
  have E: "filteredTransactions parseISO dr txs =
          filter (\<lambda>tx. \<exists>d. parseISO (transaction_time tx) = Some d
                    \<and> time_value (range_start dr) \<le> time_value d
                    \<and> time_value d \<le> time_value (range_end dr)) txs"
    by (simp add: filteredTransactions_def sel)
  have F: "previousPeriodTransactions parseISO g dr now txs =
          filter (\<lambda>tx. \<exists>d. parseISO (transaction_time tx) = Some d
                    \<and> time_value (range_start (previousPeriod g dr now)) \<le> time_value d
                    \<and> time_value d \<le> time_value (range_end (previousPeriod g dr now))) txs"
    by (simp add: previousPeriodTransactions_def sel)
  from A B C D E F show ?thesis by (intro conjI)
qed

theorem previous_window_by_granularity_witness:
  "valid_date \<lparr>year = 2026, month = 2, day = 31, ms = 43200000\<rparr>
   \<and> valid_date \<lparr>year = 2026, month = 1, day = 14, ms = 36000000\<rparr>
   \<and> dateRange weekly \<lparr>year = 2026, month = 2, day = 31, ms = 43200000\<rparr>
     = \<lparr>range_start = \<lparr>year = 2026, month = 2, day = 29, ms = 0\<rparr>,
        range_end = \<lparr>year = 2026, month = 3, day = 4, ms = 86399999\<rparr>\<rparr>
   \<and> previousPeriod weekly
        (dateRange weekly \<lparr>year = 2026, month = 2, day = 31, ms = 43200000\<rparr>)
        \<lparr>year = 2026, month = 2, day = 31, ms = 43200000\<rparr>
     = \<lparr>range_start = \<lparr>year = 2026, month = 2, day = 22, ms = 0\<rparr>,
        range_end = \<lparr>year = 2026, month = 2, day = 28, ms = 0\<rparr>\<rparr>
   \<and> previousPeriod monthly
        (dateRange monthly \<lparr>year = 2026, month = 2, day = 31, ms = 43200000\<rparr>)
        \<lparr>year = 2026, month = 2, day = 31, ms = 43200000\<rparr>
     = \<lparr>range_start = \<lparr>year = 2026, month = 1, day = 1, ms = 0\<rparr>,
        range_end = \<lparr>year = 2026, month = 1, day = 28, ms = 86399999\<rparr>\<rparr>
   \<and> previousPeriod quarterly
        (dateRange quarterly \<lparr>year = 2026, month = 2, day = 31, ms = 43200000\<rparr>)
        \<lparr>year = 2026, month = 2, day = 31, ms = 43200000\<rparr>
     = \<lparr>range_start = \<lparr>year = 2025, month = 9, day = 1, ms = 0\<rparr>,
        range_end = \<lparr>year = 2025, month = 11, day = 31, ms = 0\<rparr>\<rparr>
   \<and> filteredTransactions
        (\<lambda>s. if s = ''2026-02-14T10:00:00''
             then Some \<lparr>year = 2026, month = 1, day = 14, ms = 36000000\<rparr>
             else if s = ''2026-03-22T00:00:00''
             then Some \<lparr>year = 2026, month = 2, day = 22, ms = 0\<rparr>
             else if s = ''2026-03-28T09:00:00''
             then Some \<lparr>year = 2026, month = 2, day = 28, ms = 32400000\<rparr>
             else if s = ''2026-03-30T18:00:00''
             then Some \<lparr>year = 2026, month = 2, day = 30, ms = 64800000\<rparr>
             else if s = ''2025-11-05T10:00:00''
             then Some \<lparr>year = 2025, month = 10, day = 5, ms = 36000000\<rparr>
             else if s = ''2025-12-31T00:00:00''
             then Some \<lparr>year = 2025, month = 11, day = 31, ms = 0\<rparr>
             else None)
        (dateRange weekly \<lparr>year = 2026, month = 2, day = 31, ms = 43200000\<rparr>)
        [\<lparr>tx_amount = Fin 12, transaction_time = ''2026-02-14T10:00:00''\<rparr>,
         \<lparr>tx_amount = Fin 5, transaction_time = ''2026-03-22T00:00:00''\<rparr>,
         \<lparr>tx_amount = Fin 30, transaction_time = ''2026-03-28T09:00:00''\<rparr>,
         \<lparr>tx_amount = Fin 8, transaction_time = ''2026-03-30T18:00:00''\<rparr>,
         \<lparr>tx_amount = Fin 40, transaction_time = ''2025-11-05T10:00:00''\<rparr>,
         \<lparr>tx_amount = Fin 9, transaction_time = ''2025-12-31T00:00:00''\<rparr>,
         \<lparr>tx_amount = Fin 7, transaction_time = ''yesterday''\<rparr>]
     = [\<lparr>tx_amount = Fin 8, transaction_time = ''2026-03-30T18:00:00''\<rparr>]
   \<and> previousPeriodTransactions
        (\<lambda>s. if s = ''2026-02-14T10:00:00''
             then Some \<lparr>year = 2026, month = 1, day = 14, ms = 36000000\<rparr>
             else if s = ''2026-03-22T00:00:00''
             then Some \<lparr>year = 2026, month = 2, day = 22, ms = 0\<rparr>
             else if s = ''2026-03-28T09:00:00''
             then Some \<lparr>year = 2026, month = 2, day = 28, ms = 32400000\<rparr>
             else if s = ''2026-03-30T18:00:00''
             then Some \<lparr>year = 2026, month = 2, day = 30, ms = 64800000\<rparr>
             else if s = ''2025-11-05T10:00:00''
             then Some \<lparr>year = 2025, month = 10, day = 5, ms = 36000000\<rparr>
             else if s = ''2025-12-31T00:00:00''
             then Some \<lparr>year = 2025, month = 11, day = 31, ms = 0\<rparr>
             else None)
        weekly
        (dateRange weekly \<lparr>year = 2026, month = 2, day = 31, ms = 43200000\<rparr>)
        \<lparr>year = 2026, month = 2, day = 31, ms = 43200000\<rparr>
        [\<lparr>tx_amount = Fin 12, transaction_time = ''2026-02-14T10:00:00''\<rparr>,
         \<lparr>tx_amount = Fin 5, transaction_time = ''2026-03-22T00:00:00''\<rparr>,
         \<lparr>tx_amount = Fin 30, transaction_time = ''2026-03-28T09:00:00''\<rparr>,
         \<lparr>tx_amount = Fin 8, transaction_time = ''2026-03-30T18:00:00''\<rparr>,
         \<lparr>tx_amount = Fin 40, transaction_time = ''2025-11-05T10:00:00''\<rparr>,
         \<lparr>tx_amount = Fin 9, transaction_time = ''2025-12-31T00:00:00''\<rparr>,
         \<lparr>tx_amount = Fin 7, transaction_time = ''yesterday''\<rparr>]
     = [\<lparr>tx_amount = Fin 5, transaction_time = ''2026-03-22T00:00:00''\<rparr>]
   \<and> previousPeriodTransactions
        (\<lambda>s. if s = ''2026-02-14T10:00:00''
             then Some \<lparr>year = 2026, month = 1, day = 14, ms = 36000000\<rparr>
             else if s = ''2026-03-22T00:00:00''
             then Some \<lparr>year = 2026, month = 2, day = 22, ms = 0\<rparr>
             else if s = ''2026-03-28T09:00:00''
             then Some \<lparr>year = 2026, month = 2, day = 28, ms = 32400000\<rparr>
             else if s = ''2026-03-30T18:00:00''
             then Some \<lparr>year = 2026, month = 2, day = 30, ms = 64800000\<rparr>
             else if s = ''2025-11-05T10:00:00''
             then Some \<lparr>year = 2025, month = 10, day = 5, ms = 36000000\<rparr>
             else if s = ''2025-12-31T00:00:00''
             then Some \<lparr>year = 2025, month = 11, day = 31, ms = 0\<rparr>
             else None)
        monthly
        (dateRange monthly \<lparr>year = 2026, month = 2, day = 31, ms = 43200000\<rparr>)
        \<lparr>year = 2026, month = 2, day = 31, ms = 43200000\<rparr>
        [\<lparr>tx_amount = Fin 12, transaction_time = ''2026-02-14T10:00:00''\<rparr>,
         \<lparr>tx_amount = Fin 5, transaction_time = ''2026-03-22T00:00:00''\<rparr>,
         \<lparr>tx_amount = Fin 30, transaction_time = ''2026-03-28T09:00:00''\<rparr>,
         \<lparr>tx_amount = Fin 8, transaction_time = ''2026-03-30T18:00:00''\<rparr>,
         \<lparr>tx_amount = Fin 40, transaction_time = ''2025-11-05T10:00:00''\<rparr>,
         \<lparr>tx_amount = Fin 9, transaction_time = ''2025-12-31T00:00:00''\<rparr>,
         \<lparr>tx_amount = Fin 7, transaction_time = ''yesterday''\<rparr>]
     = [\<lparr>tx_amount = Fin 12, transaction_time = ''2026-02-14T10:00:00''\<rparr>]
   \<and> previousPeriodTransactions
        (\<lambda>s. if s = ''2026-02-14T10:00:00''
             then Some \<lparr>year = 2026, month = 1, day = 14, ms = 36000000\<rparr>
             else if s = ''2026-03-22T00:00:00''
             then Some \<lparr>year = 2026, month = 2, day = 22, ms = 0\<rparr>
             else if s = ''2026-03-28T09:00:00''
             then Some \<lparr>year = 2026, month = 2, day = 28, ms = 32400000\<rparr>
             else if s = ''2026-03-30T18:00:00''
             then Some \<lparr>year = 2026, month = 2, day = 30, ms = 64800000\<rparr>
             else if s = ''2025-11-05T10:00:00''
             then Some \<lparr>year = 2025, month = 10, day = 5, ms = 36000000\<rparr>
             else if s = ''2025-12-31T00:00:00''
             then Some \<lparr>year = 2025, month = 11, day = 31, ms = 0\<rparr>
             else None)
        quarterly
        (dateRange quarterly \<lparr>year = 2026, month = 2, day = 31, ms = 43200000\<rparr>)
        \<lparr>year = 2026, month = 2, day = 31, ms = 43200000\<rparr>
        [\<lparr>tx_amount = Fin 12, transaction_time = ''2026-02-14T10:00:00''\<rparr>,
         \<lparr>tx_amount = Fin 5, transaction_time = ''2026-03-22T00:00:00''\<rparr>,
         \<lparr>tx_amount = Fin 30, transaction_time = ''2026-03-28T09:00:00''\<rparr>,
         \<lparr>tx_amount = Fin 8, transaction_time = ''2026-03-30T18:00:00''\<rparr>,
         \<lparr>tx_amount = Fin 40, transaction_time = ''2025-11-05T10:00:00''\<rparr>,
         \<lparr>tx_amount = Fin 9, transaction_time = ''2025-12-31T00:00:00''\<rparr>,
         \<lparr>tx_amount = Fin 7, transaction_time = ''yesterday''\<rparr>]
     = [\<lparr>tx_amount = Fin 40, transaction_time = ''2025-11-05T10:00:00''\<rparr>,
        \<lparr>tx_amount = Fin 9, transaction_time = ''2025-12-31T00:00:00''\<rparr>]
   \<and> filteredTransactions
        (\<lambda>s. if s = ''2026-02-14T10:00:00''
             then Some \<lparr>year = 2026, month = 1, day = 14, ms = 36000000\<rparr>
             else if s = ''2026-03-22T00:00:00''
             then Some \<lparr>year = 2026, month = 2, day = 22, ms = 0\<rparr>
             else if s = ''2026-03-28T09:00:00''
             then Some \<lparr>year = 2026, month = 2, day = 28, ms = 32400000\<rparr>
             else if s = ''2026-03-30T18:00:00''
             then Some \<lparr>year = 2026, month = 2, day = 30, ms = 64800000\<rparr>
             else if s = ''2025-11-05T10:00:00''
             then Some \<lparr>year = 2025, month = 10, day = 5, ms = 36000000\<rparr>
             else if s = ''2025-12-31T00:00:00''
             then Some \<lparr>year = 2025, month = 11, day = 31, ms = 0\<rparr>
             else None)
        (dateRange quarterly \<lparr>year = 2026, month = 2, day = 31, ms = 43200000\<rparr>)
        [\<lparr>tx_amount = Fin 12, transaction_time = ''2026-02-14T10:00:00''\<rparr>,
         \<lparr>tx_amount = Fin 5, transaction_time = ''2026-03-22T00:00:00''\<rparr>,
         \<lparr>tx_amount = Fin 30, transaction_time = ''2026-03-28T09:00:00''\<rparr>,
         \<lparr>tx_amount = Fin 8, transaction_time = ''2026-03-30T18:00:00''\<rparr>,
         \<lparr>tx_amount = Fin 40, transaction_time = ''2025-11-05T10:00:00''\<rparr>,
         \<lparr>tx_amount = Fin 9, transaction_time = ''2025-12-31T00:00:00''\<rparr>,
         \<lparr>tx_amount = Fin 7, transaction_time = ''yesterday''\<rparr>]
     = [\<lparr>tx_amount = Fin 12, transaction_time = ''2026-02-14T10:00:00''\<rparr>,
        \<lparr>tx_amount = Fin 5, transaction_time = ''2026-03-22T00:00:00''\<rparr>,
        \<lparr>tx_amount = Fin 30, transaction_time = ''2026-03-28T09:00:00''\<rparr>,
        \<lparr>tx_amount = Fin 8, transaction_time = ''2026-03-30T18:00:00''\<rparr>]"
proof -
  define now where "now = \<lparr>year = 2026, month = 2, day = 31, ms = 43200000\<rparr>"
  define t where "t = \<lparr>year = 2026, month = 1, day = 14, ms = 36000000\<rparr>"
  define parse where "parse = (\<lambda>s. if s = ''2026-02-14T10:00:00''
             then Some \<lparr>year = 2026, month = 1, day = 14, ms = 36000000\<rparr>
             else if s = ''2026-03-22T00:00:00''
             then Some \<lparr>year = 2026, month = 2, day = 22, ms = 0\<rparr>
             else if s = ''2026-03-28T09:00:00''
             then Some \<lparr>year = 2026, month = 2, day = 28, ms = 32400000\<rparr>
             else if s = ''2026-03-30T18:00:00''
             then Some \<lparr>year = 2026, month = 2, day = 30, ms = 64800000\<rparr>
             else if s = ''2025-11-05T10:00:00''
             then Some \<lparr>year = 2025, month = 10, day = 5, ms = 36000000\<rparr>
             else if s = ''2025-12-31T00:00:00''
             then Some \<lparr>year = 2025, month = 11, day = 31, ms = 0\<rparr>
             else None)"
  define txs where "txs =
        [\<lparr>tx_amount = Fin 12, transaction_time = ''2026-02-14T10:00:00''\<rparr>,
         \<lparr>tx_amount = Fin 5, transaction_time = ''2026-03-22T00:00:00''\<rparr>,
         \<lparr>tx_amount = Fin 30, transaction_time = ''2026-03-28T09:00:00''\<rparr>,
         \<lparr>tx_amount = Fin 8, transaction_time = ''2026-03-30T18:00:00''\<rparr>,
         \<lparr>tx_amount = Fin 40, transaction_time = ''2025-11-05T10:00:00''\<rparr>,
         \<lparr>tx_amount = Fin 9, transaction_time = ''2025-12-31T00:00:00''\<rparr>,
         \<lparr>tx_amount = Fin 7, transaction_time = ''yesterday''\<rparr>]"
  note date_eval = time_value_def day_number_def DayFromYear_def days_before_month_def
    leap_year_def daysInMonth_def end_of_day_def
  have v: "valid_date now" and vt: "valid_date t"
    by (simp_all add: now_def t_def valid_date_def date_eval)
  have cw: "dateRange weekly now
     = \<lparr>range_start = \<lparr>year = 2026, month = 2, day = 29, ms = 0\<rparr>,
        range_end = \<lparr>year = 2026, month = 3, day = 4, ms = 86399999\<rparr>\<rparr>"
    by (simp add: now_def dateRange_def startOfWeek_def endOfWeek_def getDay_def date_eval
        prev_day_def next_day_def)
  have pw: "previousPeriod weekly (dateRange weekly now) now
     = \<lparr>range_start = \<lparr>year = 2026, month = 2, day = 22, ms = 0\<rparr>,
        range_end = \<lparr>year = 2026, month = 2, day = 28, ms = 0\<rparr>\<rparr>"
    unfolding cw
    by (simp add: previousPeriod_def Let_def startOfWeek_def getDay_def date_eval prev_day_def)
  note T = previous_window_by_granularity [OF v v vt, where parseISO = parse and txs = txs]
  have pm: "previousPeriod monthly (dateRange monthly now) now
     = \<lparr>range_start = \<lparr>year = 2026, month = 1, day = 1, ms = 0\<rparr>,
        range_end = \<lparr>year = 2026, month = 1, day = 28, ms = 86399999\<rparr>\<rparr>"
    using T [where dr = "dateRange monthly now", THEN conjunct1]
    by (cases "previousPeriod monthly (dateRange monthly now) now")
      (simp add: Let_def now_def date_eval)
  note Q = T [THEN conjunct2, THEN conjunct2, THEN conjunct1, unfolded Let_def]
  have cq: "dateRange quarterly now
     = \<lparr>range_start = \<lparr>year = 2026, month = 0, day = 1, ms = 0\<rparr>,
        range_end = \<lparr>year = 2026, month = 2, day = 31, ms = 86399999\<rparr>\<rparr>"
    unfolding Q [THEN conjunct1] by (simp add: now_def date_eval)
  have pq: "previousPeriod quarterly (dateRange quarterly now) now
     = \<lparr>range_start = \<lparr>year = 2025, month = 9, day = 1, ms = 0\<rparr>,
        range_end = \<lparr>year = 2025, month = 11, day = 31, ms = 0\<rparr>\<rparr>"
    using Q [THEN conjunct2, THEN conjunct1] Q [THEN conjunct2, THEN conjunct2, THEN conjunct1]
    by (cases "previousPeriod quarterly (dateRange quarterly now) now")
      (simp add: now_def date_eval)
  have fq: "filteredTransactions parse (dateRange quarterly now) txs
     = [\<lparr>tx_amount = Fin 12, transaction_time = ''2026-02-14T10:00:00''\<rparr>,
        \<lparr>tx_amount = Fin 5, transaction_time = ''2026-03-22T00:00:00''\<rparr>,
        \<lparr>tx_amount = Fin 30, transaction_time = ''2026-03-28T09:00:00''\<rparr>,
        \<lparr>tx_amount = Fin 8, transaction_time = ''2026-03-30T18:00:00''\<rparr>]"
    unfolding T [where dr = "dateRange quarterly now", THEN conjunct2, THEN conjunct2,
        THEN conjunct2, THEN conjunct2, THEN conjunct1]
    unfolding cq
    by (simp add: parse_def txs_def date_eval)
  have fw: "filteredTransactions parse (dateRange weekly now) txs
     = [\<lparr>tx_amount = Fin 8, transaction_time = ''2026-03-30T18:00:00''\<rparr>]"
    unfolding T [where dr = "dateRange weekly now", THEN conjunct2, THEN conjunct2,
        THEN conjunct2, THEN conjunct2, THEN conjunct1]
    unfolding cw
    by (simp add: parse_def txs_def date_eval)
  have tw: "previousPeriodTransactions parse weekly (dateRange weekly now) now txs
     = [\<lparr>tx_amount = Fin 5, transaction_time = ''2026-03-22T00:00:00''\<rparr>]"
    unfolding T [where dr = "dateRange weekly now" and g = weekly, THEN conjunct2, THEN conjunct2,
        THEN conjunct2, THEN conjunct2, THEN conjunct2]
    unfolding pw
    by (simp add: parse_def txs_def date_eval)
  have tm: "previousPeriodTransactions parse monthly (dateRange monthly now) now txs
     = [\<lparr>tx_amount = Fin 12, transaction_time = ''2026-02-14T10:00:00''\<rparr>]"
    unfolding T [where dr = "dateRange monthly now" and g = monthly, THEN conjunct2, THEN conjunct2,
        THEN conjunct2, THEN conjunct2, THEN conjunct2]
    unfolding pm
    by (simp add: parse_def txs_def date_eval)
  have tq: "previousPeriodTransactions parse quarterly (dateRange quarterly now) now txs
     = [\<lparr>tx_amount = Fin 40, transaction_time = ''2025-11-05T10:00:00''\<rparr>,
        \<lparr>tx_amount = Fin 9, transaction_time = ''2025-12-31T00:00:00''\<rparr>]"
    unfolding T [where dr = "dateRange quarterly now" and g = quarterly, THEN conjunct2, THEN conjunct2,
        THEN conjunct2, THEN conjunct2, THEN conjunct2]
    unfolding pq
    by (simp add: parse_def txs_def date_eval)
  show ?thesis
    using v vt cw pw pm pq fw tw tm tq fq unfolding now_def t_def parse_def txs_def
    by (intro conjI)
qed

end
